theory Spec2Isabelle
  imports Main
begin

section \<open>Values and data of the sync script\<close>

text \<open>
  The scripts \<^verbatim>\<open>src/sync-plugins.js\<close> and \<^verbatim>\<open>src/unnamed/part_000\<close> are two
  versions of one program: they read the manifest \<^verbatim>\<open>plugins.json\<close>, list the Webflow
  collection and the Algolia index, and create, update or delete records.
  JavaScript values that the code tests for truthiness are modelled by \<open>jsval\<close>.
\<close>

datatype jsval = JUndefined | JNull | JBool bool | JNum int | JStr string

fun truthy :: "jsval \<Rightarrow> bool" where
  "truthy JUndefined = False"
| "truthy JNull = False"
| "truthy (JBool b) = b"
| "truthy (JNum n) = (n \<noteq> 0)"
| "truthy (JStr s) = (s \<noteq> [])"

text \<open>\<^verbatim>\<open>a && b\<close>: the left operand itself when it is falsy, the right one otherwise.\<close>

definition js_and :: "jsval \<Rightarrow> jsval \<Rightarrow> jsval" where
  "js_and a b = (if truthy a then b else a)"

text \<open>\<^verbatim>\<open>a === b\<close> on the primitive values above (no NaN among them).\<close>

definition strict_eq :: "jsval \<Rightarrow> jsval \<Rightarrow> bool" where
  "strict_eq a b = (a = b)"

text \<open>A thrown \<^verbatim>\<open>Error\<close> with its message.\<close>

datatype js_error = Error string

text \<open>
  One entry of \<^verbatim>\<open>plugins.json\<close>. \<open>gp_status\<close> and \<open>gp_id\<close> are read by the code
  and may be absent (\<open>JUndefined\<close>).
\<close>

record githubPlugin =
  gp_name :: string
  gp_description :: string
  gp_githubUrl :: string
  gp_status :: jsval
  gp_id :: jsval

text \<open>The \<^verbatim>\<open>fieldData\<close> object sent to and stored by the Webflow collection.\<close>

record fieldData =
  fd_name :: string
  fd_title :: string
  fd_slug :: string
  fd_description :: string
  fd_github :: string
  fd_content :: string
  fd_npm_downloads :: int
  fd_github_stars :: int
  fd_author_link :: "string option"
  fd_author_name :: "string option"
  fd_author_avatar :: "string option"
  fd_active :: jsval

text \<open>
  An item of the Webflow collection: its store-assigned id, the top-level \<^verbatim>\<open>name\<close>
  property that \<^verbatim>\<open>syncPlugins\<close> reads when it builds \<^verbatim>\<open>webflowPluginIds\<close>, and
  the field data.
\<close>

record webflowItem =
  wp_id :: nat
  wp_name :: jsval
  wp_fieldData :: fieldData

record algoliaItem =
  al_objectID :: string
  al_name :: string
  al_description :: string
  al_githubUrl :: string
  al_npmDownloads :: int
  al_githubStars :: int
  al_authorLink :: "string option"
  al_authorName :: "string option"
  al_authorAvatar :: "string option"

text \<open>What \<^verbatim>\<open>gitUrlParse\<close> returns; \<^verbatim>\<open>|| {}\<close> leaves every property undefined.\<close>

record gitUrl =
  gu_source :: "string option"
  gu_owner :: "string option"
  gu_name :: "string option"

definition no_gitUrl :: gitUrl where
  "no_gitUrl = \<lparr>gu_source = None, gu_owner = None, gu_name = None\<rparr>"

record repoInfo =
  ri_githubStars :: "int option"
  ri_authorAvatar :: "string option"
  ri_authorLink :: "string option"
  ri_authorName :: "string option"

definition no_repoInfo :: repoInfo where
  "no_repoInfo = \<lparr>ri_githubStars = None, ri_authorAvatar = None,
     ri_authorLink = None, ri_authorName = None\<rparr>"

record readme =
  rm_content :: "string option"

section \<open>Calls to the two stores and the trace of a run\<close>

datatype call =
    ListAlgoliaItems
  | ListWebflowCollectionItems
  | CreateWebflowItem fieldData
  | UpdateWebflowItem nat fieldData
  | DeleteWebflowItem nat
  | CreateAlgoliaItem algoliaItem
  | UpdateAlgoliaItem algoliaItem
  | DeleteAlgoliaItem string

text \<open>
  The trace records, in order, every store call with its outcome (\<open>None\<close>: it returned,
  \<open>Some e\<close>: it threw \<open>e\<close>), every batch the scheduler forms, every entry handed to
  \<^verbatim>\<open>processPlugin\<close> and every \<^verbatim>\<open>sleep\<close>.
\<close>

datatype event =
    Call call "js_error option"
  | Batch "githubPlugin list"
  | Invoke githubPlugin
  | Sleep nat

text \<open>
  The state of a run: the two stores, the four module-level report lists, the messages
  given to \<^verbatim>\<open>console.error\<close>, and the trace. \<open>next_id\<close> is the id the Webflow
  collection gives to the next item it creates.
\<close>

record world =
  webflow :: "webflowItem list"
  next_id :: nat
  algolia :: "algoliaItem list"
  createdPlugins :: "string list"
  updatedPlugins :: "string list"
  deletedPlugins :: "string list"
  failedPlugins :: "(string \<times> string) list"
  console_error :: "string list"
  trace :: "event list"

text \<open>
  Everything the scripts import and do not define: the libraries \<^verbatim>\<open>git-url-parse\<close>
  and \<^verbatim>\<open>path\<close>, the enrichment providers, and the helpers of \<^verbatim>\<open>utils.js\<close>
  whose bodies are not part of the sources. Each is a parameter; a call that can throw
  returns \<open>Inl\<close> of the error. \<open>fails\<close> decides, from the trace so far and the call,
  whether a store call throws.
\<close>

record env =
  gitUrlParse :: "string \<Rightarrow> js_error + gitUrl option"
  basename :: "string \<Rightarrow> string"
  formatTitle :: "string \<Rightarrow> js_error + string"
  getRepoInfo :: "gitUrl \<Rightarrow> js_error + repoInfo option"
  getNpmDownloads :: "string \<Rightarrow> string option \<Rightarrow> js_error + int option"
  getReadmeContent :: "gitUrl \<Rightarrow> js_error + readme option"
  isPluginEqual :: "githubPlugin \<Rightarrow> fieldData \<Rightarrow> string \<Rightarrow> bool"
  getErrorMessage :: "js_error \<Rightarrow> string"
  fails :: "event list \<Rightarrow> call \<Rightarrow> js_error option"


section \<open>The stores and the helpers of utils.js\<close>

text \<open>
  Modelled from the spec: the effect of the content-collection store's create-item,
  update-item and delete-item, and of the search index's create-item, update-item and
  delete-item (the stores are external; section 6 of the specification gives their
  operations). A created item gets the id the store assigns, an id it has given to no
  item before; update replaces the field data of the item with the given id; delete
  removes the item with the given id. The index is keyed by \<open>objectID\<close>.
\<close>

definition fresh_id :: "webflowItem list \<Rightarrow> nat" where
  "fresh_id items = Suc (foldr max (map wp_id items) 0)"

definition collection_create :: "nat \<Rightarrow> fieldData \<Rightarrow> webflowItem list \<Rightarrow> webflowItem list" where
  "collection_create i fd items =
     items @ [\<lparr>wp_id = i, wp_name = JUndefined, wp_fieldData = fd\<rparr>]"

definition collection_update :: "nat \<Rightarrow> fieldData \<Rightarrow> webflowItem list \<Rightarrow> webflowItem list" where
  "collection_update i fd items =
     map (\<lambda>it. if wp_id it = i then it\<lparr>wp_fieldData := fd\<rparr> else it) items"

definition collection_delete :: "nat \<Rightarrow> webflowItem list \<Rightarrow> webflowItem list" where
  "collection_delete i items = filter (\<lambda>it. wp_id it \<noteq> i) items"

definition index_create :: "algoliaItem \<Rightarrow> algoliaItem list \<Rightarrow> algoliaItem list" where
  "index_create item items = items @ [item]"

definition index_update :: "algoliaItem \<Rightarrow> algoliaItem list \<Rightarrow> algoliaItem list" where
  "index_update item items =
     map (\<lambda>it. if al_objectID it = al_objectID item then item else it) items"

definition index_delete :: "string \<Rightarrow> algoliaItem list \<Rightarrow> algoliaItem list" where
  "index_delete objectID items = filter (\<lambda>it. al_objectID it \<noteq> objectID) items"

text \<open>
  A store call: it is appended to the trace with its outcome; when it throws, the store
  is left as it was.
\<close>

definition api_call :: "env \<Rightarrow> call \<Rightarrow> (world \<Rightarrow> world) \<Rightarrow> world \<Rightarrow> (js_error + unit) \<times> world" where
  "api_call e c effect w =
     (case fails e (trace w) c of
        Some err \<Rightarrow> (Inl err, w\<lparr>trace := trace w @ [Call c (Some err)]\<rparr>)
      | None \<Rightarrow> (Inr (), (effect w)\<lparr>trace := trace w @ [Call c None]\<rparr>))"

text \<open>
  The wrappers of \<^verbatim>\<open>utils.js\<close>. The collection id
  \<^verbatim>\<open>process.env.WEBFLOW_PLUGINS_COLLECTION_ID\<close> is the same in every call and is left out.
\<close>

definition createWebflowItem :: "env \<Rightarrow> fieldData \<Rightarrow> world \<Rightarrow> (js_error + unit) \<times> world" where
  "createWebflowItem e fd =
     api_call e (CreateWebflowItem fd)
       (\<lambda>w. w\<lparr>webflow := collection_create (next_id w) fd (webflow w), next_id := Suc (next_id w)\<rparr>)"

definition updateWebflowItem :: "env \<Rightarrow> nat \<Rightarrow> fieldData \<Rightarrow> world \<Rightarrow> (js_error + unit) \<times> world" where
  "updateWebflowItem e i fd =
     api_call e (UpdateWebflowItem i fd) (\<lambda>w. w\<lparr>webflow := collection_update i fd (webflow w)\<rparr>)"

definition deleteWebflowItem :: "env \<Rightarrow> nat \<Rightarrow> world \<Rightarrow> (js_error + unit) \<times> world" where
  "deleteWebflowItem e i =
     api_call e (DeleteWebflowItem i) (\<lambda>w. w\<lparr>webflow := collection_delete i (webflow w)\<rparr>)"

definition createAlgoliaItem :: "env \<Rightarrow> algoliaItem \<Rightarrow> world \<Rightarrow> (js_error + unit) \<times> world" where
  "createAlgoliaItem e item =
     api_call e (CreateAlgoliaItem item) (\<lambda>w. w\<lparr>algolia := index_create item (algolia w)\<rparr>)"

definition updateAlgoliaItem :: "env \<Rightarrow> algoliaItem \<Rightarrow> world \<Rightarrow> (js_error + unit) \<times> world" where
  "updateAlgoliaItem e item =
     api_call e (UpdateAlgoliaItem item) (\<lambda>w. w\<lparr>algolia := index_update item (algolia w)\<rparr>)"

definition deleteAlgoliaItem :: "env \<Rightarrow> string \<Rightarrow> world \<Rightarrow> (js_error + unit) \<times> world" where
  "deleteAlgoliaItem e objectID =
     api_call e (DeleteAlgoliaItem objectID) (\<lambda>w. w\<lparr>algolia := index_delete objectID (algolia w)\<rparr>)"

definition listAlgoliaItems :: "env \<Rightarrow> world \<Rightarrow> (js_error + algoliaItem list) \<times> world" where
  "listAlgoliaItems e w =
     (case fails e (trace w) ListAlgoliaItems of
        Some err \<Rightarrow> (Inl err, w\<lparr>trace := trace w @ [Call ListAlgoliaItems (Some err)]\<rparr>)
      | None \<Rightarrow> (Inr (algolia w), w\<lparr>trace := trace w @ [Call ListAlgoliaItems None]\<rparr>))"

definition listWebflowCollectionItems :: "env \<Rightarrow> world \<Rightarrow> (js_error + webflowItem list) \<times> world" where
  "listWebflowCollectionItems e w =
     (case fails e (trace w) ListWebflowCollectionItems of
        Some err \<Rightarrow> (Inl err, w\<lparr>trace := trace w @ [Call ListWebflowCollectionItems (Some err)]\<rparr>)
      | None \<Rightarrow> (Inr (webflow w), w\<lparr>trace := trace w @ [Call ListWebflowCollectionItems None]\<rparr>))"

text \<open>
  Modelled from the spec: \<^verbatim>\<open>findPluginByName\<close> of \<^verbatim>\<open>utils.js\<close>, whose body is not
  part of the sources. The specification: "Look up existing catalog record by name (name
  is the join key)". The scripts call it on the Webflow items, where the name is
  \<^verbatim>\<open>fieldData.name\<close>, and on the manifest, where it is \<^verbatim>\<open>name\<close>.
\<close>

definition findPluginByName :: "webflowItem list \<Rightarrow> string \<Rightarrow> webflowItem option" where
  "findPluginByName plugins n = List.find (\<lambda>p. fd_name (wp_fieldData p) = n) plugins"

definition findPluginByName_manifest :: "githubPlugin list \<Rightarrow> string \<Rightarrow> githubPlugin option" where
  "findPluginByName_manifest plugins n = List.find (\<lambda>p. gp_name p = n) plugins"

text \<open>
  Modelled from the spec: \<^verbatim>\<open>isPluginEqual\<close> of \<^verbatim>\<open>utils.js\<close>, whose body is not
  part of the sources. The specification's equality check for update-skip: "two
  representations are equal iff every tracked field (name, description, github URL,
  status-derived active flag, and README content) matches byte-for-byte". sync-plugins.js
  calls it with the manifest entry, the stored field data and the fetched content; the
  active flag derived from the status is the one the script assembles (line 97).
\<close>

definition isPluginEqual_spec :: "githubPlugin \<Rightarrow> fieldData \<Rightarrow> string \<Rightarrow> bool" where
  "isPluginEqual_spec githubPlugin fieldData content =
     (gp_name githubPlugin = fd_name fieldData
      \<and> gp_description githubPlugin = fd_description fieldData
      \<and> gp_githubUrl githubPlugin = fd_github fieldData
      \<and> js_and (gp_status githubPlugin) (JBool (strict_eq (gp_status githubPlugin) (JStr ''active'')))
          = fd_active fieldData
      \<and> content = fd_content fieldData)"

text \<open>
  Modelled from the spec: \<^verbatim>\<open>sleep\<close> of \<^verbatim>\<open>utils.js\<close>, "a pure suspension with no
  side effects"; the trace keeps it.
\<close>

definition sleep :: "nat \<Rightarrow> world \<Rightarrow> world" where
  "sleep ms w = w\<lparr>trace := trace w @ [Sleep ms]\<rparr>"

definition log_error :: "string \<Rightarrow> world \<Rightarrow> world" where
  "log_error msg w = w\<lparr>console_error := console_error w @ [msg]\<rparr>"

text \<open>
  \<^verbatim>\<open>Promise.all\<close> of the three enrichment calls: it rejects when one of them rejects.
  The calls only read, so the model takes the error of the first rejected one in the
  order of the array.
\<close>

definition promise_all3 :: "js_error + 'a \<Rightarrow> js_error + 'b \<Rightarrow> js_error + 'c \<Rightarrow> js_error + ('a \<times> 'b \<times> 'c)" where
  "promise_all3 a b c =
     (case a of Inl err \<Rightarrow> Inl err | Inr x \<Rightarrow>
     (case b of Inl err \<Rightarrow> Inl err | Inr y \<Rightarrow>
     (case c of Inl err \<Rightarrow> Inl err | Inr z \<Rightarrow> Inr (x, y, z))))"

section \<open>processPlugin and processDeletePlugin of sync-plugins.js\<close>

definition BATCH_SIZE :: nat where
  "BATCH_SIZE = 5"

definition DELAY_MS :: nat where
  "DELAY_MS = 2000"

text \<open>\<^verbatim>\<open>x || 0\<close> for a count that may be missing.\<close>

definition or_zero :: "int option \<Rightarrow> int" where
  "or_zero x = (case x of None \<Rightarrow> 0 | Some n \<Rightarrow> n)"

text \<open>\<^verbatim>\<open>!content\<close>: the content is undefined or the empty string.\<close>

definition no_content :: "string option \<Rightarrow> bool" where
  "no_content c = (case c of None \<Rightarrow> True | Some s \<Rightarrow> s = [])"

text \<open>The object literal \<^verbatim>\<open>fieldData\<close> (lines 85 to 98 of sync-plugins.js).\<close>

definition mk_fieldData :: "githubPlugin \<Rightarrow> string \<Rightarrow> string \<Rightarrow> string \<Rightarrow> int option \<Rightarrow> repoInfo \<Rightarrow> fieldData" where
  "mk_fieldData githubPlugin title slug content npmDownloads repoInfo =
     \<lparr>fd_name = gp_name githubPlugin,
      fd_title = title,
      fd_slug = slug,
      fd_description = gp_description githubPlugin,
      fd_github = gp_githubUrl githubPlugin,
      fd_content = content,
      fd_npm_downloads = or_zero npmDownloads,
      fd_github_stars = or_zero (ri_githubStars repoInfo),
      fd_author_link = ri_authorLink repoInfo,
      fd_author_name = ri_authorName repoInfo,
      fd_author_avatar = ri_authorAvatar repoInfo,
      fd_active = js_and (gp_status githubPlugin)
                    (JBool (strict_eq (gp_status githubPlugin) (JStr ''active'')))\<rparr>"

text \<open>The object literal \<^verbatim>\<open>algoliaItem\<close> (lines 100 to 110).\<close>

definition mk_algoliaItem :: "githubPlugin \<Rightarrow> string \<Rightarrow> int option \<Rightarrow> repoInfo \<Rightarrow> algoliaItem" where
  "mk_algoliaItem githubPlugin slug npmDownloads repoInfo =
     \<lparr>al_objectID = slug,
      al_name = gp_name githubPlugin,
      al_description = gp_description githubPlugin,
      al_githubUrl = gp_githubUrl githubPlugin,
      al_npmDownloads = or_zero npmDownloads,
      al_githubStars = or_zero (ri_githubStars repoInfo),
      al_authorLink = ri_authorLink repoInfo,
      al_authorName = ri_authorName repoInfo,
      al_authorAvatar = ri_authorAvatar repoInfo\<rparr>"

text \<open>
  \<^verbatim>\<open>processDeletePlugin\<close> (lines 157 to 172): both deletions and the push are inside
  one \<^verbatim>\<open>try\<close>; the \<^verbatim>\<open>catch\<close> only writes to \<^verbatim>\<open>console.error\<close>.
\<close>

definition processDeletePlugin :: "env \<Rightarrow> webflowItem \<Rightarrow> world \<Rightarrow> world" where
  "processDeletePlugin e webflowPlugin w =
     (case deleteWebflowItem e (wp_id webflowPlugin) w of
        (Inl err, w1) \<Rightarrow>
          log_error (''Failed to process deletion of '' @ fd_name (wp_fieldData webflowPlugin)
                     @ '' '' @ getErrorMessage e err) w1
      | (Inr u, w1) \<Rightarrow>
          (case deleteAlgoliaItem e (fd_slug (wp_fieldData webflowPlugin)) w1 of
             (Inl err, w2) \<Rightarrow>
               log_error (''Failed to process deletion of '' @ fd_name (wp_fieldData webflowPlugin)
                          @ '' '' @ getErrorMessage e err) w2
           | (Inr u2, w2) \<Rightarrow>
               w2\<lparr>deletedPlugins := deletedPlugins w2 @ [fd_name (wp_fieldData webflowPlugin)]\<rparr>))"

text \<open>
  The no-content branch of \<^verbatim>\<open>processPlugin\<close> (lines 71 to 83): the entry is pushed
  onto \<^verbatim>\<open>failedPlugins\<close>, its Webflow item, if there is one, goes to
  \<^verbatim>\<open>processDeletePlugin\<close>, and the function returns; the set
  \<^verbatim>\<open>webflowPluginIds\<close> is left as it is.
\<close>

definition no_content_branch :: "env \<Rightarrow> githubPlugin \<Rightarrow> webflowItem option \<Rightarrow> jsval set \<Rightarrow> world \<Rightarrow> (js_error + jsval set) \<times> world" where
  "no_content_branch e githubPlugin webflowPlugin webflowPluginIds w =
     (let w1 = w\<lparr>failedPlugins := failedPlugins w @
                    [(gp_name githubPlugin, ''No README content found'')]\<rparr> in
      case webflowPlugin of
        Some wp \<Rightarrow> (Inr webflowPluginIds, processDeletePlugin e wp w1)
      | None \<Rightarrow> (Inr webflowPluginIds, w1))"

text \<open>
  The writes of \<^verbatim>\<open>processPlugin\<close> (lines 112 to 142). The result of
  \<^verbatim>\<open>isPluginEqual\<close> is bound to \<^verbatim>\<open>hasChanged\<close>, and the update runs when it is
  truthy. Each \<^verbatim>\<open>await\<close> is a store call that may throw.
\<close>

definition write_branch :: "env \<Rightarrow> githubPlugin \<Rightarrow> webflowItem option \<Rightarrow> string \<Rightarrow> fieldData \<Rightarrow> algoliaItem \<Rightarrow> jsval set \<Rightarrow> world \<Rightarrow> (js_error + jsval set) \<times> world" where
  "write_branch e githubPlugin webflowPlugin content fieldData algoliaItem webflowPluginIds w =
     (case webflowPlugin of
        Some wp \<Rightarrow>
          (let hasChanged = isPluginEqual e githubPlugin (wp_fieldData wp) content in
           if hasChanged then
             (case updateWebflowItem e (wp_id wp) fieldData w of
                (Inl err, w1) \<Rightarrow> (Inl err, w1)
              | (Inr u, w1) \<Rightarrow>
             (case updateAlgoliaItem e algoliaItem w1 of
                (Inl err, w2) \<Rightarrow> (Inl err, w2)
              | (Inr u2, w2) \<Rightarrow>
                  (Inr (webflowPluginIds - {gp_id githubPlugin}),
                   w2\<lparr>updatedPlugins := updatedPlugins w2 @ [gp_name githubPlugin]\<rparr>)))
           else (Inr (webflowPluginIds - {gp_id githubPlugin}), w))
      | None \<Rightarrow>
          (case createWebflowItem e fieldData w of
             (Inl err, w1) \<Rightarrow> (Inl err, w1)
           | (Inr u, w1) \<Rightarrow>
          (case createAlgoliaItem e algoliaItem w1 of
             (Inl err, w2) \<Rightarrow> (Inl err, w2)
           | (Inr u2, w2) \<Rightarrow>
               (Inr (webflowPluginIds - {gp_id githubPlugin}),
                w2\<lparr>createdPlugins := createdPlugins w2 @ [gp_name githubPlugin]\<rparr>))))"

text \<open>
  The body of the \<^verbatim>\<open>try\<close> of \<^verbatim>\<open>processPlugin\<close> (lines 56 to 142). It returns
  \<open>Inl\<close> of what was thrown, or \<open>Inr\<close> of the set \<^verbatim>\<open>webflowPluginIds\<close> as the body
  leaves it.
\<close>

definition processPlugin_try :: "env \<Rightarrow> githubPlugin \<Rightarrow> webflowItem list \<Rightarrow> jsval set \<Rightarrow> world \<Rightarrow> (js_error + jsval set) \<times> world" where
  "processPlugin_try e githubPlugin webflowPlugins webflowPluginIds w =
     (let webflowPlugin = findPluginByName webflowPlugins (gp_name githubPlugin) in
      case gitUrlParse e (gp_githubUrl githubPlugin) of
        Inl err \<Rightarrow> (Inl err, w)
      | Inr parsed \<Rightarrow>
     (let g = (case parsed of None \<Rightarrow> no_gitUrl | Some p \<Rightarrow> p);
          slug = basename e (gp_githubUrl githubPlugin) in
      case promise_all3 (getRepoInfo e g)
                        (getNpmDownloads e (gp_name githubPlugin) (gu_name g))
                        (getReadmeContent e g) of
        Inl err \<Rightarrow> (Inl err, w)
      | Inr (repoInfo, npmDownloads, readmeContent) \<Rightarrow>
     (let info = (case repoInfo of None \<Rightarrow> no_repoInfo | Some r \<Rightarrow> r);
          content = (case readmeContent of None \<Rightarrow> None | Some r \<Rightarrow> rm_content r) in
      if no_content content then
        no_content_branch e githubPlugin webflowPlugin webflowPluginIds w
      else
        (case formatTitle e (gp_name githubPlugin) of
           Inl err \<Rightarrow> (Inl err, w)
         | Inr title \<Rightarrow>
             write_branch e githubPlugin webflowPlugin (the content)
               (mk_fieldData githubPlugin title slug (the content) npmDownloads info)
               (mk_algoliaItem githubPlugin slug npmDownloads info)
               webflowPluginIds w))))"

text \<open>
  \<^verbatim>\<open>processPlugin\<close>: the \<^verbatim>\<open>catch\<close> (lines 143 to 152) logs and pushes the pair of
  the entry's name and the reason onto \<^verbatim>\<open>failedPlugins\<close>. Nothing is thrown out of it.
\<close>

definition processPlugin :: "env \<Rightarrow> githubPlugin \<Rightarrow> webflowItem list \<Rightarrow> jsval set \<Rightarrow> world \<Rightarrow> jsval set \<times> world" where
  "processPlugin e githubPlugin webflowPlugins webflowPluginIds w =
     (case processPlugin_try e githubPlugin webflowPlugins webflowPluginIds
             (w\<lparr>trace := trace w @ [Invoke githubPlugin]\<rparr>) of
        (Inr ids, w1) \<Rightarrow> (ids, w1)
      | (Inl err, w1) \<Rightarrow>
          (webflowPluginIds,
           (log_error (''Failed to process '' @ gp_name githubPlugin @ '' '' @ getErrorMessage e err) w1)
             \<lparr>failedPlugins := failedPlugins w1 @
                [(gp_name githubPlugin, ''Webflow or Algolia error: '' @ getErrorMessage e err)]\<rparr>))"


section \<open>The scheduler loop and syncPlugins\<close>

text \<open>\<^verbatim>\<open>xs.slice(i, j)\<close> for \<open>0 \<le> i \<le> j\<close>: the end is clipped to the length.\<close>

definition slice :: "'a list \<Rightarrow> nat \<Rightarrow> nat \<Rightarrow> 'a list" where
  "slice xs i j = take (j - i) (drop i xs)"

text \<open>
  The first loop of \<^verbatim>\<open>syncPlugins\<close> (lines 199 to 210 of sync-plugins.js, 216 to 226
  of part_000; the two are the same text). \<open>step\<close> is the call of \<^verbatim>\<open>processPlugin\<close>
  on one entry; the state is the set \<^verbatim>\<open>webflowPluginIds\<close> and the world.
  \<^verbatim>\<open>Promise.all\<close> lets the entries of a batch interleave at their awaits; the model
  runs them one after the other in the order of the batch, which is one of these
  interleavings.
\<close>

function run_batches :: "(githubPlugin \<Rightarrow> jsval set \<times> world \<Rightarrow> jsval set \<times> world) \<Rightarrow> githubPlugin list \<Rightarrow> nat \<Rightarrow> jsval set \<times> world \<Rightarrow> jsval set \<times> world" where
  "run_batches step githubPlugins i st =
     (if i < length githubPlugins then
        run_batches step githubPlugins (i + BATCH_SIZE)
          (let batch = slice githubPlugins i (i + BATCH_SIZE);
               st1 = fold step batch (fst st, (snd st)\<lparr>trace := trace (snd st) @ [Batch batch]\<rparr>)
           in if i + BATCH_SIZE < length githubPlugins
              then (fst st1, sleep DELAY_MS (snd st1))
              else st1)
      else st)"
  by pat_completeness auto
termination
  by (relation "measure (\<lambda>(step, githubPlugins, i, st). length githubPlugins - i)")
     (auto simp: BATCH_SIZE_def)

declare run_batches.simps [simp del]

text \<open>
  The second loop of \<^verbatim>\<open>syncPlugins\<close> in sync-plugins.js (lines 212 to 216): the
  Webflow items whose name no manifest entry has are handed to
  \<^verbatim>\<open>processDeletePlugin\<close>, one after the other.
\<close>

definition delete_orphans :: "env \<Rightarrow> githubPlugin list \<Rightarrow> webflowItem list \<Rightarrow> world \<Rightarrow> world" where
  "delete_orphans e githubPlugins webflowPlugins w =
     fold (\<lambda>webflowPlugin w.
             if findPluginByName_manifest githubPlugins (fd_name (wp_fieldData webflowPlugin)) = None
             then processDeletePlugin e webflowPlugin w else w)
          webflowPlugins w"

text \<open>
  \<^verbatim>\<open>syncPlugins\<close> of sync-plugins.js up to the end of the second loop; the README
  generation and the printing of the report that follow are not modelled. The manifest
  is the parameter \<open>githubPlugins\<close>. The result is the error caught by the outer
  \<^verbatim>\<open>catch\<close>, which ends the process with exit code 1, or \<open>None\<close>.
\<close>

definition syncPlugins :: "env \<Rightarrow> githubPlugin list \<Rightarrow> world \<Rightarrow> js_error option \<times> world" where
  "syncPlugins e githubPlugins w =
     (case listAlgoliaItems e w of
        (Inl err, w1) \<Rightarrow> (Some err, w1)
      | (Inr algoliaPlugins, w1) \<Rightarrow>
     (case listWebflowCollectionItems e w1 of
        (Inl err, w2) \<Rightarrow> (Some err, w2)
      | (Inr webflowPlugins, w2) \<Rightarrow>
     (let webflowPluginIds = set (map wp_name webflowPlugins);
          st = run_batches (\<lambda>githubPlugin st. processPlugin e githubPlugin webflowPlugins (fst st) (snd st))
                 githubPlugins 0 (webflowPluginIds, w2)
      in (None, delete_orphans e githubPlugins webflowPlugins (snd st)))))"

text \<open>
  The state a process starts in: the report lists are the empty arrays of lines 36 to 39,
  nothing is logged, the stores hold what they hold, and the next id of the collection
  is above the ids of its items.
\<close>

definition initial_world :: "webflowItem list \<Rightarrow> algoliaItem list \<Rightarrow> world" where
  "initial_world items objects =
     \<lparr>webflow = items, next_id = fresh_id items, algolia = objects, createdPlugins = [], updatedPlugins = [],
      deletedPlugins = [], failedPlugins = [], console_error = [], trace = []\<rparr>"


section \<open>The version in part_000\<close>

text \<open>
  \<^verbatim>\<open>processPlugin\<close> of part_000 (lines 107 to 194): the no-content branch returns
  without deleting (lines 128 to 135), and an entry with a Webflow item is always
  updated (lines 164 to 172); there is no call of \<^verbatim>\<open>isPluginEqual\<close>. The rest
  is the text of sync-plugins.js.
\<close>

definition no_content_branch_part0 :: "githubPlugin \<Rightarrow> jsval set \<Rightarrow> world \<Rightarrow> (js_error + jsval set) \<times> world" where
  "no_content_branch_part0 githubPlugin webflowPluginIds w =
     (Inr webflowPluginIds,
      w\<lparr>failedPlugins := failedPlugins w @
           [(gp_name githubPlugin, ''No README content found'')]\<rparr>)"

definition write_branch_part0 :: "env \<Rightarrow> githubPlugin \<Rightarrow> webflowItem option \<Rightarrow> fieldData \<Rightarrow> algoliaItem \<Rightarrow> jsval set \<Rightarrow> world \<Rightarrow> (js_error + jsval set) \<times> world" where
  "write_branch_part0 e githubPlugin webflowPlugin fieldData algoliaItem webflowPluginIds w =
     (case webflowPlugin of
        Some wp \<Rightarrow>
          (case updateWebflowItem e (wp_id wp) fieldData w of
             (Inl err, w1) \<Rightarrow> (Inl err, w1)
           | (Inr u, w1) \<Rightarrow>
          (case updateAlgoliaItem e algoliaItem w1 of
             (Inl err, w2) \<Rightarrow> (Inl err, w2)
           | (Inr u2, w2) \<Rightarrow>
               (Inr (webflowPluginIds - {gp_id githubPlugin}),
                w2\<lparr>updatedPlugins := updatedPlugins w2 @ [gp_name githubPlugin]\<rparr>)))
      | None \<Rightarrow>
          (case createWebflowItem e fieldData w of
             (Inl err, w1) \<Rightarrow> (Inl err, w1)
           | (Inr u, w1) \<Rightarrow>
          (case createAlgoliaItem e algoliaItem w1 of
             (Inl err, w2) \<Rightarrow> (Inl err, w2)
           | (Inr u2, w2) \<Rightarrow>
               (Inr (webflowPluginIds - {gp_id githubPlugin}),
                w2\<lparr>createdPlugins := createdPlugins w2 @ [gp_name githubPlugin]\<rparr>))))"

definition processPlugin_try_part0 :: "env \<Rightarrow> githubPlugin \<Rightarrow> webflowItem list \<Rightarrow> jsval set \<Rightarrow> world \<Rightarrow> (js_error + jsval set) \<times> world" where
  "processPlugin_try_part0 e githubPlugin webflowPlugins webflowPluginIds w =
     (let webflowPlugin = findPluginByName webflowPlugins (gp_name githubPlugin) in
      case gitUrlParse e (gp_githubUrl githubPlugin) of
        Inl err \<Rightarrow> (Inl err, w)
      | Inr parsed \<Rightarrow>
     (let g = (case parsed of None \<Rightarrow> no_gitUrl | Some p \<Rightarrow> p);
          slug = basename e (gp_githubUrl githubPlugin) in
      case promise_all3 (getRepoInfo e g)
                        (getNpmDownloads e (gp_name githubPlugin) (gu_name g))
                        (getReadmeContent e g) of
        Inl err \<Rightarrow> (Inl err, w)
      | Inr (repoInfo, npmDownloads, readmeContent) \<Rightarrow>
     (let info = (case repoInfo of None \<Rightarrow> no_repoInfo | Some r \<Rightarrow> r);
          content = (case readmeContent of None \<Rightarrow> None | Some r \<Rightarrow> rm_content r) in
      if no_content content then
        no_content_branch_part0 githubPlugin webflowPluginIds w
      else
        (case formatTitle e (gp_name githubPlugin) of
           Inl err \<Rightarrow> (Inl err, w)
         | Inr title \<Rightarrow>
             write_branch_part0 e githubPlugin webflowPlugin
               (mk_fieldData githubPlugin title slug (the content) npmDownloads info)
               (mk_algoliaItem githubPlugin slug npmDownloads info)
               webflowPluginIds w))))"

definition processPlugin_part0 :: "env \<Rightarrow> githubPlugin \<Rightarrow> webflowItem list \<Rightarrow> jsval set \<Rightarrow> world \<Rightarrow> jsval set \<times> world" where
  "processPlugin_part0 e githubPlugin webflowPlugins webflowPluginIds w =
     (case processPlugin_try_part0 e githubPlugin webflowPlugins webflowPluginIds
             (w\<lparr>trace := trace w @ [Invoke githubPlugin]\<rparr>) of
        (Inr ids, w1) \<Rightarrow> (ids, w1)
      | (Inl err, w1) \<Rightarrow>
          (webflowPluginIds,
           (log_error (''Failed to process '' @ gp_name githubPlugin @ '' '' @ getErrorMessage e err) w1)
             \<lparr>failedPlugins := failedPlugins w1 @
                [(gp_name githubPlugin, ''Webflow or Algolia error: '' @ getErrorMessage e err)]\<rparr>))"




section \<open>The program without the set webflowPluginIds\<close>

text \<open>
  sync-plugins.js with the set \<^verbatim>\<open>webflowPluginIds\<close>, its construction (line 191), the
  parameter of \<^verbatim>\<open>processPlugin\<close> and the \<^verbatim>\<open>delete\<close> of line 142 removed; everything
  else is the text above.
\<close>

definition no_content_branch_noset :: "env \<Rightarrow> githubPlugin \<Rightarrow> webflowItem option \<Rightarrow> world \<Rightarrow> (js_error + unit) \<times> world" where
  "no_content_branch_noset e githubPlugin webflowPlugin w =
     (let w1 = w\<lparr>failedPlugins := failedPlugins w @
                    [(gp_name githubPlugin, ''No README content found'')]\<rparr> in
      case webflowPlugin of
        Some wp \<Rightarrow> (Inr (), processDeletePlugin e wp w1)
      | None \<Rightarrow> (Inr (), w1))"

definition write_branch_noset :: "env \<Rightarrow> githubPlugin \<Rightarrow> webflowItem option \<Rightarrow> string \<Rightarrow> fieldData \<Rightarrow> algoliaItem \<Rightarrow> world \<Rightarrow> (js_error + unit) \<times> world" where
  "write_branch_noset e githubPlugin webflowPlugin content fieldData algoliaItem w =
     (case webflowPlugin of
        Some wp \<Rightarrow>
          (let hasChanged = isPluginEqual e githubPlugin (wp_fieldData wp) content in
           if hasChanged then
             (case updateWebflowItem e (wp_id wp) fieldData w of
                (Inl err, w1) \<Rightarrow> (Inl err, w1)
              | (Inr u, w1) \<Rightarrow>
             (case updateAlgoliaItem e algoliaItem w1 of
                (Inl err, w2) \<Rightarrow> (Inl err, w2)
              | (Inr u2, w2) \<Rightarrow>
                  (Inr (), w2\<lparr>updatedPlugins := updatedPlugins w2 @ [gp_name githubPlugin]\<rparr>)))
           else (Inr (), w))
      | None \<Rightarrow>
          (case createWebflowItem e fieldData w of
             (Inl err, w1) \<Rightarrow> (Inl err, w1)
           | (Inr u, w1) \<Rightarrow>
          (case createAlgoliaItem e algoliaItem w1 of
             (Inl err, w2) \<Rightarrow> (Inl err, w2)
           | (Inr u2, w2) \<Rightarrow>
               (Inr (), w2\<lparr>createdPlugins := createdPlugins w2 @ [gp_name githubPlugin]\<rparr>))))"

definition processPlugin_try_noset :: "env \<Rightarrow> githubPlugin \<Rightarrow> webflowItem list \<Rightarrow> world \<Rightarrow> (js_error + unit) \<times> world" where
  "processPlugin_try_noset e githubPlugin webflowPlugins w =
     (let webflowPlugin = findPluginByName webflowPlugins (gp_name githubPlugin) in
      case gitUrlParse e (gp_githubUrl githubPlugin) of
        Inl err \<Rightarrow> (Inl err, w)
      | Inr parsed \<Rightarrow>
     (let g = (case parsed of None \<Rightarrow> no_gitUrl | Some p \<Rightarrow> p);
          slug = basename e (gp_githubUrl githubPlugin) in
      case promise_all3 (getRepoInfo e g)
                        (getNpmDownloads e (gp_name githubPlugin) (gu_name g))
                        (getReadmeContent e g) of
        Inl err \<Rightarrow> (Inl err, w)
      | Inr (repoInfo, npmDownloads, readmeContent) \<Rightarrow>
     (let info = (case repoInfo of None \<Rightarrow> no_repoInfo | Some r \<Rightarrow> r);
          content = (case readmeContent of None \<Rightarrow> None | Some r \<Rightarrow> rm_content r) in
      if no_content content then
        no_content_branch_noset e githubPlugin webflowPlugin w
      else
        (case formatTitle e (gp_name githubPlugin) of
           Inl err \<Rightarrow> (Inl err, w)
         | Inr title \<Rightarrow>
             write_branch_noset e githubPlugin webflowPlugin (the content)
               (mk_fieldData githubPlugin title slug (the content) npmDownloads info)
               (mk_algoliaItem githubPlugin slug npmDownloads info)
               w))))"

definition processPlugin_noset :: "env \<Rightarrow> githubPlugin \<Rightarrow> webflowItem list \<Rightarrow> world \<Rightarrow> world" where
  "processPlugin_noset e githubPlugin webflowPlugins w =
     (case processPlugin_try_noset e githubPlugin webflowPlugins
             (w\<lparr>trace := trace w @ [Invoke githubPlugin]\<rparr>) of
        (Inr u, w1) \<Rightarrow> w1
      | (Inl err, w1) \<Rightarrow>
          (log_error (''Failed to process '' @ gp_name githubPlugin @ '' '' @ getErrorMessage e err) w1)
            \<lparr>failedPlugins := failedPlugins w1 @
               [(gp_name githubPlugin, ''Webflow or Algolia error: '' @ getErrorMessage e err)]\<rparr>)"

function run_batches_noset :: "(githubPlugin \<Rightarrow> world \<Rightarrow> world) \<Rightarrow> githubPlugin list \<Rightarrow> nat \<Rightarrow> world \<Rightarrow> world" where
  "run_batches_noset step githubPlugins i w =
     (if i < length githubPlugins then
        run_batches_noset step githubPlugins (i + BATCH_SIZE)
          (let batch = slice githubPlugins i (i + BATCH_SIZE);
               w1 = fold step batch (w\<lparr>trace := trace w @ [Batch batch]\<rparr>)
           in if i + BATCH_SIZE < length githubPlugins then sleep DELAY_MS w1 else w1)
      else w)"
  by pat_completeness auto
termination
  by (relation "measure (\<lambda>(step, githubPlugins, i, w). length githubPlugins - i)")
     (auto simp: BATCH_SIZE_def)

declare run_batches_noset.simps [simp del]

definition syncPlugins_noset :: "env \<Rightarrow> githubPlugin list \<Rightarrow> world \<Rightarrow> js_error option \<times> world" where
  "syncPlugins_noset e githubPlugins w =
     (case listAlgoliaItems e w of
        (Inl err, w1) \<Rightarrow> (Some err, w1)
      | (Inr algoliaPlugins, w1) \<Rightarrow>
     (case listWebflowCollectionItems e w1 of
        (Inl err, w2) \<Rightarrow> (Some err, w2)
      | (Inr webflowPlugins, w2) \<Rightarrow>
          (None, delete_orphans e githubPlugins webflowPlugins
                   (run_batches_noset (\<lambda>githubPlugin w. processPlugin_noset e githubPlugin webflowPlugins w)
                      githubPlugins 0 w2))))"

section \<open>Reading a trace\<close>

fun is_call :: "event \<Rightarrow> bool" where
  "is_call (Call c r) = True"
| "is_call ev = False"

text \<open>A write to the content collection, a write to the search index, a call that returned.\<close>

fun is_content_write :: "event \<Rightarrow> bool" where
  "is_content_write (Call (CreateWebflowItem fd) r) = True"
| "is_content_write (Call (UpdateWebflowItem i fd) r) = True"
| "is_content_write ev = False"

fun is_index_write :: "event \<Rightarrow> bool" where
  "is_index_write (Call (CreateAlgoliaItem item) r) = True"
| "is_index_write (Call (UpdateAlgoliaItem item) r) = True"
| "is_index_write ev = False"

fun completed :: "event \<Rightarrow> bool" where
  "completed (Call c None) = True"
| "completed ev = False"

text \<open>
  \<open>content_first seen evs\<close>: an index write stands in \<open>evs\<close> only after a content write
  that returned (\<open>seen\<close> says whether one came before \<open>evs\<close>), and no content write
  follows an index write.
\<close>

fun content_first :: "bool \<Rightarrow> event list \<Rightarrow> bool" where
  "content_first seen [] = True"
| "content_first seen (ev # evs) =
     (if is_index_write ev
      then seen \<and> list_all (\<lambda>x. \<not> is_content_write x) evs \<and> content_first seen evs
      else content_first (seen \<or> (is_content_write ev \<and> completed ev)) evs)"

definition writes_in_order :: "event list \<Rightarrow> bool" where
  "writes_in_order evs = (list_all is_call evs \<and> content_first False evs)"

text \<open>The scheduling events of a trace: everything but the store calls.\<close>

definition schedule_of :: "event list \<Rightarrow> event list" where
  "schedule_of tr = filter (\<lambda>ev. \<not> is_call ev) tr"

text \<open>The entries handed to \<^verbatim>\<open>processPlugin\<close>, in order.\<close>

fun invoked :: "event list \<Rightarrow> githubPlugin list" where
  "invoked [] = []"
| "invoked (Invoke gp # tr) = gp # invoked tr"
| "invoked (ev # tr) = invoked tr"

text \<open>
  A Webflow item is an orphan when no manifest entry has its name: the test of line 213.
\<close>

definition orphan :: "githubPlugin list \<Rightarrow> webflowItem \<Rightarrow> bool" where
  "orphan gps wp = (findPluginByName_manifest gps (fd_name (wp_fieldData wp)) = None)"

section \<open>Sample data\<close>

text \<open>
  An environment in which every provider answers and no store call throws, a manifest
  entry, and the Webflow item a run creates for it.
\<close>

definition sample_env :: env where
  "sample_env =
     \<lparr>gitUrlParse = (\<lambda>url. Inr (Some \<lparr>gu_source = Some ''github.com'', gu_owner = Some ''acme'',
                         gu_name = Some (rev (takeWhile (\<lambda>c. c \<noteq> CHR ''/'') (rev url)))\<rparr>)),
      basename = (\<lambda>url. rev (takeWhile (\<lambda>c. c \<noteq> CHR ''/'') (rev url))),
      formatTitle = (\<lambda>n. Inr n),
      getRepoInfo = (\<lambda>g. Inr (Some \<lparr>ri_githubStars = Some 7, ri_authorAvatar = None,
                         ri_authorLink = None, ri_authorName = Some ''acme''\<rparr>)),
      getNpmDownloads = (\<lambda>n r. Inr (Some 3)),
      getReadmeContent = (\<lambda>g. Inr (Some \<lparr>rm_content = Some ''# readme''\<rparr>)),
      isPluginEqual = (\<lambda>gp fd c. True),
      getErrorMessage = (\<lambda>err. case err of Error m \<Rightarrow> m),
      fails = (\<lambda>tr c. None)\<rparr>"

definition sample_plugin :: githubPlugin where
  "sample_plugin =
     \<lparr>gp_name = ''serverless-foo'', gp_description = ''Foo'',
      gp_githubUrl = ''https://github.com/acme/serverless-foo'',
      gp_status = JStr ''active'', gp_id = JUndefined\<rparr>"

definition sample_fieldData :: fieldData where
  "sample_fieldData =
     \<lparr>fd_name = ''serverless-foo'', fd_title = ''serverless-foo'', fd_slug = ''serverless-foo'',
      fd_description = ''Foo'', fd_github = ''https://github.com/acme/serverless-foo'',
      fd_content = ''# readme'', fd_npm_downloads = 3, fd_github_stars = 7,
      fd_author_link = None, fd_author_name = Some ''acme'', fd_author_avatar = None,
      fd_active = JBool True\<rparr>"

definition sample_item :: webflowItem where
  "sample_item = \<lparr>wp_id = 1, wp_name = JUndefined, wp_fieldData = sample_fieldData\<rparr>"

text \<open>The index object a run creates for the sample entry.\<close>

definition sample_algoliaItem :: algoliaItem where
  "sample_algoliaItem =
     \<lparr>al_objectID = ''serverless-foo'', al_name = ''serverless-foo'', al_description = ''Foo'',
      al_githubUrl = ''https://github.com/acme/serverless-foo'', al_npmDownloads = 3,
      al_githubStars = 7, al_authorLink = None, al_authorName = Some ''acme'',
      al_authorAvatar = None\<rparr>"

text \<open>A Webflow item whose name is not in the sample manifests.\<close>

definition sample_orphan :: webflowItem where
  "sample_orphan =
     \<lparr>wp_id = 2, wp_name = JUndefined,
      wp_fieldData = sample_fieldData\<lparr>fd_name := ''serverless-gone'', fd_slug := ''serverless-gone''\<rparr>\<rparr>"

text \<open>The same entry without a \<^verbatim>\<open>status\<close>.\<close>

definition sample_plugin_no_status :: githubPlugin where
  "sample_plugin_no_status = sample_plugin\<lparr>gp_status := JUndefined\<rparr>"

text \<open>The same environment with a README fetch that yields no content.\<close>

definition sample_env_no_readme :: env where
  "sample_env_no_readme = sample_env\<lparr>getReadmeContent := (\<lambda>g. Inr None)\<rparr>"

text \<open>Environments in which the deletion, or every write, to the Webflow collection throws.\<close>

definition throws_on_delete :: "event list \<Rightarrow> call \<Rightarrow> js_error option" where
  "throws_on_delete tr c = (case c of DeleteWebflowItem i \<Rightarrow> Some (Error ''boom'') | _ \<Rightarrow> None)"

definition throws_on_write :: "event list \<Rightarrow> call \<Rightarrow> js_error option" where
  "throws_on_write tr c =
     (case c of CreateWebflowItem fd \<Rightarrow> Some (Error ''boom'')
              | UpdateWebflowItem i fd \<Rightarrow> Some (Error ''boom'')
              | _ \<Rightarrow> None)"



text \<open>A manifest of twelve entries with different names.\<close>

definition sample_manifest :: "githubPlugin list" where
  "sample_manifest = map (\<lambda>n. sample_plugin\<lparr>gp_name := replicate (Suc n) CHR ''p''\<rparr>) [0..<12]"


section \<open>The store calls, outcome by outcome\<close>

text \<open>
  What \<^verbatim>\<open>processDeletePlugin\<close> and the write branches return, for each outcome of the
  store calls they make.
\<close>

lemmas store_defs = createWebflowItem_def updateWebflowItem_def deleteWebflowItem_def
  createAlgoliaItem_def updateAlgoliaItem_def deleteAlgoliaItem_def api_call_def


lemma processDeletePlugin_webflow_throws:
  "fails e (trace w) (DeleteWebflowItem (wp_id wp)) = Some err \<Longrightarrow>
   processDeletePlugin e wp w =
     w\<lparr>console_error := console_error w @ [''Failed to process deletion of '' @ fd_name (wp_fieldData wp) @ '' '' @ getErrorMessage e err],
       trace := trace w @ [Call (DeleteWebflowItem (wp_id wp)) (Some err)]\<rparr>"
  by (simp add: processDeletePlugin_def store_defs log_error_def)

lemma processDeletePlugin_algolia_throws:
  "fails e (trace w) (DeleteWebflowItem (wp_id wp)) = None \<Longrightarrow>
   fails e (trace w @ [Call (DeleteWebflowItem (wp_id wp)) None])
     (DeleteAlgoliaItem (fd_slug (wp_fieldData wp))) = Some err \<Longrightarrow>
   processDeletePlugin e wp w =
     w\<lparr>webflow := collection_delete (wp_id wp) (webflow w),
       console_error := console_error w @ [''Failed to process deletion of '' @ fd_name (wp_fieldData wp) @ '' '' @ getErrorMessage e err],
       trace := trace w @ [Call (DeleteWebflowItem (wp_id wp)) None,
                           Call (DeleteAlgoliaItem (fd_slug (wp_fieldData wp))) (Some err)]\<rparr>"
  by (simp add: processDeletePlugin_def store_defs log_error_def)

lemma processDeletePlugin_returns:
  "fails e (trace w) (DeleteWebflowItem (wp_id wp)) = None \<Longrightarrow>
   fails e (trace w @ [Call (DeleteWebflowItem (wp_id wp)) None])
     (DeleteAlgoliaItem (fd_slug (wp_fieldData wp))) = None \<Longrightarrow>
   processDeletePlugin e wp w =
     w\<lparr>webflow := collection_delete (wp_id wp) (webflow w),
       algolia := index_delete (fd_slug (wp_fieldData wp)) (algolia w),
       deletedPlugins := deletedPlugins w @ [fd_name (wp_fieldData wp)],
       trace := trace w @ [Call (DeleteWebflowItem (wp_id wp)) None,
                           Call (DeleteAlgoliaItem (fd_slug (wp_fieldData wp))) None]\<rparr>"
  by (simp add: processDeletePlugin_def store_defs log_error_def)

lemma write_branch_create_webflow_throws:
  "fails e (trace w) (CreateWebflowItem fd) = Some err \<Longrightarrow>
   write_branch e gp None c fd item ids w =
     (Inl err, w\<lparr>trace := trace w @ [Call (CreateWebflowItem fd) (Some err)]\<rparr>)"
  by (simp add: write_branch_def store_defs)

lemma write_branch_create_algolia_throws:
  "fails e (trace w) (CreateWebflowItem fd) = None \<Longrightarrow>
   fails e (trace w @ [Call (CreateWebflowItem fd) None]) (CreateAlgoliaItem item) = Some err \<Longrightarrow>
   write_branch e gp None c fd item ids w =
     (Inl err, w\<lparr>webflow := collection_create (next_id w) fd (webflow w),
                  next_id := Suc (next_id w),
                  trace := trace w @ [Call (CreateWebflowItem fd) None,
                                      Call (CreateAlgoliaItem item) (Some err)]\<rparr>)"
  by (simp add: write_branch_def store_defs)

lemma write_branch_create_returns:
  "fails e (trace w) (CreateWebflowItem fd) = None \<Longrightarrow>
   fails e (trace w @ [Call (CreateWebflowItem fd) None]) (CreateAlgoliaItem item) = None \<Longrightarrow>
   write_branch e gp None c fd item ids w =
     (Inr (ids - {gp_id gp}),
      w\<lparr>webflow := collection_create (next_id w) fd (webflow w),
        next_id := Suc (next_id w),
        algolia := index_create item (algolia w),
        createdPlugins := createdPlugins w @ [gp_name gp],
        trace := trace w @ [Call (CreateWebflowItem fd) None, Call (CreateAlgoliaItem item) None]\<rparr>)"
  by (simp add: write_branch_def store_defs)

lemma write_branch_skip:
  "\<not> isPluginEqual e gp (wp_fieldData wp) c \<Longrightarrow>
   write_branch e gp (Some wp) c fd item ids w = (Inr (ids - {gp_id gp}), w)"
  by (simp add: write_branch_def)

lemma write_branch_update_webflow_throws:
  "isPluginEqual e gp (wp_fieldData wp) c \<Longrightarrow>
   fails e (trace w) (UpdateWebflowItem (wp_id wp) fd) = Some err \<Longrightarrow>
   write_branch e gp (Some wp) c fd item ids w =
     (Inl err, w\<lparr>trace := trace w @ [Call (UpdateWebflowItem (wp_id wp) fd) (Some err)]\<rparr>)"
  by (simp add: write_branch_def store_defs)

lemma write_branch_update_algolia_throws:
  "isPluginEqual e gp (wp_fieldData wp) c \<Longrightarrow>
   fails e (trace w) (UpdateWebflowItem (wp_id wp) fd) = None \<Longrightarrow>
   fails e (trace w @ [Call (UpdateWebflowItem (wp_id wp) fd) None]) (UpdateAlgoliaItem item) = Some err \<Longrightarrow>
   write_branch e gp (Some wp) c fd item ids w =
     (Inl err, w\<lparr>webflow := collection_update (wp_id wp) fd (webflow w),
                  trace := trace w @ [Call (UpdateWebflowItem (wp_id wp) fd) None,
                                      Call (UpdateAlgoliaItem item) (Some err)]\<rparr>)"
  by (simp add: write_branch_def store_defs)

lemma write_branch_update_returns:
  "isPluginEqual e gp (wp_fieldData wp) c \<Longrightarrow>
   fails e (trace w) (UpdateWebflowItem (wp_id wp) fd) = None \<Longrightarrow>
   fails e (trace w @ [Call (UpdateWebflowItem (wp_id wp) fd) None]) (UpdateAlgoliaItem item) = None \<Longrightarrow>
   write_branch e gp (Some wp) c fd item ids w =
     (Inr (ids - {gp_id gp}),
      w\<lparr>webflow := collection_update (wp_id wp) fd (webflow w),
        algolia := index_update item (algolia w),
        updatedPlugins := updatedPlugins w @ [gp_name gp],
        trace := trace w @ [Call (UpdateWebflowItem (wp_id wp) fd) None, Call (UpdateAlgoliaItem item) None]\<rparr>)"
  by (simp add: write_branch_def store_defs)


lemma write_branch_events:
  "\<exists>evs. trace (snd (write_branch e gp wpo c fd item ids w)) = trace w @ evs \<and> writes_in_order evs"
proof (cases wpo)
  case None
  show ?thesis
  proof (cases "fails e (trace w) (CreateWebflowItem fd)")
    case (Some err)
    then show ?thesis using None
      by (simp add: write_branch_create_webflow_throws writes_in_order_def)
  next
    case wf: None
    show ?thesis
    proof (cases "fails e (trace w @ [Call (CreateWebflowItem fd) None]) (CreateAlgoliaItem item)")
      case (Some err)
      then show ?thesis using None wf
        by (simp add: write_branch_create_algolia_throws writes_in_order_def)
    next
      case al: None
      then show ?thesis using \<open>wpo = None\<close> wf
        by (simp add: write_branch_create_returns writes_in_order_def)
    qed
  qed
next
  case (Some wp)
  show ?thesis
  proof (cases "isPluginEqual e gp (wp_fieldData wp) c")
    case False
    then show ?thesis using Some
      by (simp add: write_branch_skip writes_in_order_def)
  next
    case True
    show ?thesis
    proof (cases "fails e (trace w) (UpdateWebflowItem (wp_id wp) fd)")
      case (Some err)
      then show ?thesis using \<open>wpo = Some wp\<close> True
        by (simp add: write_branch_update_webflow_throws writes_in_order_def)
    next
      case wf: None
      show ?thesis
      proof (cases "fails e (trace w @ [Call (UpdateWebflowItem (wp_id wp) fd) None]) (UpdateAlgoliaItem item)")
        case (Some err)
        then show ?thesis using \<open>wpo = Some wp\<close> True wf
          by (simp add: write_branch_update_algolia_throws writes_in_order_def)
      next
        case al: None
        then show ?thesis using \<open>wpo = Some wp\<close> True wf
          by (simp add: write_branch_update_returns writes_in_order_def)
      qed
    qed
  qed
qed

lemma processDeletePlugin_events:
  "\<exists>evs. trace (processDeletePlugin e wp w) = trace w @ evs \<and> writes_in_order evs"
proof (cases "fails e (trace w) (DeleteWebflowItem (wp_id wp))")
  case (Some err)
  then show ?thesis
    by (simp add: processDeletePlugin_webflow_throws writes_in_order_def)
next
  case wf: None
  show ?thesis
  proof (cases "fails e (trace w @ [Call (DeleteWebflowItem (wp_id wp)) None])
                  (DeleteAlgoliaItem (fd_slug (wp_fieldData wp)))")
    case (Some err)
    then show ?thesis using wf
      by (simp add: processDeletePlugin_algolia_throws writes_in_order_def)
  next
    case None
    then show ?thesis using wf
      by (simp add: processDeletePlugin_returns writes_in_order_def)
  qed
qed

lemma no_content_branch_events:
  "\<exists>evs. trace (snd (no_content_branch e gp wpo ids w)) = trace w @ evs \<and> writes_in_order evs"
proof (cases wpo)
  case None
  then show ?thesis by (simp add: no_content_branch_def writes_in_order_def)
next
  case (Some wp)
  then show ?thesis
    using processDeletePlugin_events [of e wp "w\<lparr>failedPlugins := failedPlugins w @ [(gp_name gp, ''No README content found'')]\<rparr>"]
    by (simp add: no_content_branch_def)
qed

lemma processPlugin_try_events:
  "\<exists>evs. trace (snd (processPlugin_try e gp wps ids w)) = trace w @ evs \<and> writes_in_order evs"
  unfolding processPlugin_try_def Let_def
  using write_branch_events no_content_branch_events
  by (auto split: sum.splits prod.splits simp: writes_in_order_def)

lemma processPlugin_events:
  "\<exists>evs. trace (snd (processPlugin e gp wps ids w)) = trace w @ Invoke gp # evs \<and> writes_in_order evs"
  using processPlugin_try_events [of e gp wps ids "w\<lparr>trace := trace w @ [Invoke gp]\<rparr>"]
  by (auto simp: processPlugin_def log_error_def split: sum.splits prod.splits)


lemma write_branch_part0_create_webflow_throws:
  "fails e (trace w) (CreateWebflowItem fd) = Some err \<Longrightarrow>
   write_branch_part0 e gp None fd item ids w =
     (Inl err, w\<lparr>trace := trace w @ [Call (CreateWebflowItem fd) (Some err)]\<rparr>)"
  by (simp add: write_branch_part0_def store_defs)

lemma write_branch_part0_create_algolia_throws:
  "fails e (trace w) (CreateWebflowItem fd) = None \<Longrightarrow>
   fails e (trace w @ [Call (CreateWebflowItem fd) None]) (CreateAlgoliaItem item) = Some err \<Longrightarrow>
   write_branch_part0 e gp None fd item ids w =
     (Inl err, w\<lparr>webflow := collection_create (next_id w) fd (webflow w),
                  next_id := Suc (next_id w),
                  trace := trace w @ [Call (CreateWebflowItem fd) None,
                                      Call (CreateAlgoliaItem item) (Some err)]\<rparr>)"
  by (simp add: write_branch_part0_def store_defs)

lemma write_branch_part0_create_returns:
  "fails e (trace w) (CreateWebflowItem fd) = None \<Longrightarrow>
   fails e (trace w @ [Call (CreateWebflowItem fd) None]) (CreateAlgoliaItem item) = None \<Longrightarrow>
   write_branch_part0 e gp None fd item ids w =
     (Inr (ids - {gp_id gp}),
      w\<lparr>webflow := collection_create (next_id w) fd (webflow w),
        next_id := Suc (next_id w),
        algolia := index_create item (algolia w),
        createdPlugins := createdPlugins w @ [gp_name gp],
        trace := trace w @ [Call (CreateWebflowItem fd) None, Call (CreateAlgoliaItem item) None]\<rparr>)"
  by (simp add: write_branch_part0_def store_defs)

lemma write_branch_part0_update_webflow_throws:
  "fails e (trace w) (UpdateWebflowItem (wp_id wp) fd) = Some err \<Longrightarrow>
   write_branch_part0 e gp (Some wp) fd item ids w =
     (Inl err, w\<lparr>trace := trace w @ [Call (UpdateWebflowItem (wp_id wp) fd) (Some err)]\<rparr>)"
  by (simp add: write_branch_part0_def store_defs)

lemma write_branch_part0_update_algolia_throws:
  "fails e (trace w) (UpdateWebflowItem (wp_id wp) fd) = None \<Longrightarrow>
   fails e (trace w @ [Call (UpdateWebflowItem (wp_id wp) fd) None]) (UpdateAlgoliaItem item) = Some err \<Longrightarrow>
   write_branch_part0 e gp (Some wp) fd item ids w =
     (Inl err, w\<lparr>webflow := collection_update (wp_id wp) fd (webflow w),
                  trace := trace w @ [Call (UpdateWebflowItem (wp_id wp) fd) None,
                                      Call (UpdateAlgoliaItem item) (Some err)]\<rparr>)"
  by (simp add: write_branch_part0_def store_defs)

lemma write_branch_part0_update_returns:
  "fails e (trace w) (UpdateWebflowItem (wp_id wp) fd) = None \<Longrightarrow>
   fails e (trace w @ [Call (UpdateWebflowItem (wp_id wp) fd) None]) (UpdateAlgoliaItem item) = None \<Longrightarrow>
   write_branch_part0 e gp (Some wp) fd item ids w =
     (Inr (ids - {gp_id gp}),
      w\<lparr>webflow := collection_update (wp_id wp) fd (webflow w),
        algolia := index_update item (algolia w),
        updatedPlugins := updatedPlugins w @ [gp_name gp],
        trace := trace w @ [Call (UpdateWebflowItem (wp_id wp) fd) None, Call (UpdateAlgoliaItem item) None]\<rparr>)"
  by (simp add: write_branch_part0_def store_defs)

lemma write_branch_part0_events:
  "\<exists>evs. trace (snd (write_branch_part0 e gp wpo fd item ids w)) = trace w @ evs \<and> writes_in_order evs"
proof (cases wpo)
  case None
  show ?thesis
  proof (cases "fails e (trace w) (CreateWebflowItem fd)")
    case (Some err)
    then show ?thesis using None
      by (simp add: write_branch_part0_create_webflow_throws writes_in_order_def)
  next
    case wf: None
    show ?thesis
    proof (cases "fails e (trace w @ [Call (CreateWebflowItem fd) None]) (CreateAlgoliaItem item)")
      case (Some err)
      then show ?thesis using None wf
        by (simp add: write_branch_part0_create_algolia_throws writes_in_order_def)
    next
      case al: None
      then show ?thesis using \<open>wpo = None\<close> wf
        by (simp add: write_branch_part0_create_returns writes_in_order_def)
    qed
  qed
next
  case (Some wp)
  show ?thesis
  proof (cases "fails e (trace w) (UpdateWebflowItem (wp_id wp) fd)")
    case (Some err)
    then show ?thesis using \<open>wpo = Some wp\<close>
      by (simp add: write_branch_part0_update_webflow_throws writes_in_order_def)
  next
    case wf: None
    show ?thesis
    proof (cases "fails e (trace w @ [Call (UpdateWebflowItem (wp_id wp) fd) None]) (UpdateAlgoliaItem item)")
      case (Some err)
      then show ?thesis using \<open>wpo = Some wp\<close> wf
        by (simp add: write_branch_part0_update_algolia_throws writes_in_order_def)
    next
      case al: None
      then show ?thesis using \<open>wpo = Some wp\<close> wf
        by (simp add: write_branch_part0_update_returns writes_in_order_def)
    qed
  qed
qed

lemma processPlugin_try_part0_events:
  "\<exists>evs. trace (snd (processPlugin_try_part0 e gp wps ids w)) = trace w @ evs \<and> writes_in_order evs"
  unfolding processPlugin_try_part0_def Let_def
  using write_branch_part0_events
  by (auto split: sum.splits prod.splits simp: writes_in_order_def no_content_branch_part0_def)

lemma processPlugin_part0_events:
  "\<exists>evs. trace (snd (processPlugin_part0 e gp wps ids w)) = trace w @ Invoke gp # evs \<and> writes_in_order evs"
  using processPlugin_try_part0_events [of e gp wps ids "w\<lparr>trace := trace w @ [Invoke gp]\<rparr>"]
  by (auto simp: processPlugin_part0_def log_error_def split: sum.splits prod.splits)


section \<open>C7: the content collection is written before the index\<close>

text \<open>
  C7. For one manifest entry, in the create path and in the update path, the write to
  the content collection (\<^verbatim>\<open>createWebflowItem\<close>, \<^verbatim>\<open>updateWebflowItem\<close>) has returned
  before the write to the search index (\<^verbatim>\<open>createAlgoliaItem\<close>,
  \<^verbatim>\<open>updateAlgoliaItem\<close>) starts, and no write to the collection follows a write to the
  index. The events one call of \<^verbatim>\<open>processPlugin\<close> appends to the trace are the entry
  itself and then store calls in that order, in sync-plugins.js and in part_000, whatever
  the providers and the stores answer.
\<close>

theorem C7_content_store_before_index:
  "take (Suc (length (trace w))) (trace (snd (processPlugin e gp wps ids w))) = trace w @ [Invoke gp]
   \<and> writes_in_order (drop (Suc (length (trace w))) (trace (snd (processPlugin e gp wps ids w))))
   \<and> take (Suc (length (trace w))) (trace (snd (processPlugin_part0 e gp wps ids w))) = trace w @ [Invoke gp]
   \<and> writes_in_order (drop (Suc (length (trace w))) (trace (snd (processPlugin_part0 e gp wps ids w))))"
proof -
  obtain evs where a: "trace (snd (processPlugin e gp wps ids w)) = trace w @ Invoke gp # evs"
    and b: "writes_in_order evs"
    using processPlugin_events by blast
  obtain evs0 where c: "trace (snd (processPlugin_part0 e gp wps ids w)) = trace w @ Invoke gp # evs0"
    and d: "writes_in_order evs0"
    using processPlugin_part0_events by blast
  show ?thesis using b d by (simp add: a c)
qed

theorem C7_content_store_before_index_witness:
  "writes_in_order (drop (Suc (length (trace (initial_world [] []))))
      (trace (snd (processPlugin sample_env sample_plugin [] {} (initial_world [] [])))))
   \<and> list_ex is_index_write (trace (snd (processPlugin sample_env sample_plugin [] {} (initial_world [] []))))
   \<and> writes_in_order (drop (Suc (length (trace (initial_world [sample_item] []))))
      (trace (snd (processPlugin_part0 sample_env sample_plugin [sample_item] {} (initial_world [sample_item] [])))))
   \<and> list_ex is_index_write (trace (snd (processPlugin_part0 sample_env sample_plugin [sample_item] {} (initial_world [sample_item] []))))"
  using C7_content_store_before_index [of "initial_world [] []" sample_env sample_plugin "[]" "{}"]
        C7_content_store_before_index [of "initial_world [sample_item] []" sample_env sample_plugin "[sample_item]" "{}"]
  by (simp add: processPlugin_def processPlugin_try_def write_branch_def
        processPlugin_part0_def processPlugin_try_part0_def write_branch_part0_def
        sample_env_def sample_plugin_def sample_item_def
        initial_world_def findPluginByName_def promise_all3_def no_content_def store_defs Let_def)



section \<open>C8: the active field\<close>

text \<open>
  C8 (as amended). The \<^verbatim>\<open>active\<close> field of the assembled field data is
  \<^verbatim>\<open>status && status === 'active'\<close>: it is \<^verbatim>\<open>true\<close> exactly when \<^verbatim>\<open>status\<close> is
  the string \<^verbatim>\<open>'active'\<close>, it is \<^verbatim>\<open>false\<close> for every other truthy \<^verbatim>\<open>status\<close>,
  and for a falsy \<^verbatim>\<open>status\<close> (absent, \<^verbatim>\<open>null\<close>, the empty string, \<^verbatim>\<open>0\<close>,
  \<^verbatim>\<open>false\<close>) it is that \<^verbatim>\<open>status\<close> value itself: \<^verbatim>\<open>undefined\<close> for an absent
  \<^verbatim>\<open>status\<close>, and the boolean \<^verbatim>\<open>false\<close> only when \<^verbatim>\<open>status\<close> is \<^verbatim>\<open>false\<close>.
\<close>

theorem C8_active_field:
  "fd_active (mk_fieldData githubPlugin title slug content npmDownloads repoInfo) =
     (if gp_status githubPlugin = JStr ''active'' then JBool True
      else if truthy (gp_status githubPlugin) then JBool False
      else gp_status githubPlugin)"
  by (simp add: mk_fieldData_def js_and_def strict_eq_def)


text \<open>
  The claim as first stated gives \<^verbatim>\<open>false\<close> when \<^verbatim>\<open>status\<close> is absent. The entry
  below has no \<^verbatim>\<open>status\<close>; the item \<^verbatim>\<open>processPlugin\<close> creates for it has the
  \<^verbatim>\<open>active\<close> field \<^verbatim>\<open>undefined\<close>.
\<close>

theorem C8_active_field_counterexample:
  "gp_status sample_plugin_no_status \<noteq> JStr ''active''
   \<and> map (\<lambda>it. fd_active (wp_fieldData it))
         (webflow (snd (processPlugin sample_env sample_plugin_no_status [] {} (initial_world [] []))))
       = [JUndefined]
   \<and> JUndefined \<noteq> JBool False"
  by (simp add: processPlugin_def processPlugin_try_def write_branch_def
        sample_env_def sample_plugin_def sample_plugin_no_status_def mk_fieldData_def js_and_def
        initial_world_def findPluginByName_def promise_all3_def no_content_def store_defs Let_def
        collection_create_def)


section \<open>C10: a deletion that throws is in no report list\<close>

text \<open>
  C10. When \<^verbatim>\<open>deleteWebflowItem\<close> or \<^verbatim>\<open>deleteAlgoliaItem\<close> throws inside
  \<^verbatim>\<open>processDeletePlugin\<close>, the function still returns: the error is written to
  \<^verbatim>\<open>console.error\<close>, and \<^verbatim>\<open>createdPlugins\<close>, \<^verbatim>\<open>updatedPlugins\<close>,
  \<^verbatim>\<open>deletedPlugins\<close> and \<^verbatim>\<open>failedPlugins\<close> are what they were before the call.
\<close>

theorem C10_failed_deletion_unreported:
  assumes "fails e (trace w) (DeleteWebflowItem (wp_id wp)) = Some err
           \<or> (fails e (trace w) (DeleteWebflowItem (wp_id wp)) = None
              \<and> fails e (trace w @ [Call (DeleteWebflowItem (wp_id wp)) None])
                   (DeleteAlgoliaItem (fd_slug (wp_fieldData wp))) = Some err)"
  shows "createdPlugins (processDeletePlugin e wp w) = createdPlugins w
         \<and> updatedPlugins (processDeletePlugin e wp w) = updatedPlugins w
         \<and> deletedPlugins (processDeletePlugin e wp w) = deletedPlugins w
         \<and> failedPlugins (processDeletePlugin e wp w) = failedPlugins w
         \<and> console_error (processDeletePlugin e wp w) =
             console_error w @ [''Failed to process deletion of '' @ fd_name (wp_fieldData wp)
                                @ '' '' @ getErrorMessage e err]"
  using assms
  by (auto simp: processDeletePlugin_webflow_throws processDeletePlugin_algolia_throws)


text \<open>The Webflow deletion of the sample item throws: no list changes, the item stays.\<close>

theorem C10_failed_deletion_unreported_witness:
  "deletedPlugins (processDeletePlugin (sample_env\<lparr>fails := throws_on_delete\<rparr>) sample_item
      (initial_world [sample_item] [])) = []
   \<and> failedPlugins (processDeletePlugin (sample_env\<lparr>fails := throws_on_delete\<rparr>) sample_item
      (initial_world [sample_item] [])) = []
   \<and> console_error (processDeletePlugin (sample_env\<lparr>fails := throws_on_delete\<rparr>) sample_item
      (initial_world [sample_item] [])) = [''Failed to process deletion of serverless-foo boom'']
   \<and> webflow (processDeletePlugin (sample_env\<lparr>fails := throws_on_delete\<rparr>) sample_item
      (initial_world [sample_item] [])) = [sample_item]"
  using C10_failed_deletion_unreported [of "sample_env\<lparr>fails := throws_on_delete\<rparr>"
          "initial_world [sample_item] []" sample_item "Error ''boom''"]
  by (simp add: sample_env_def throws_on_delete_def initial_world_def sample_item_def
        sample_fieldData_def processDeletePlugin_def store_defs log_error_def)


section \<open>The loop on a manifest of twelve entries\<close>

lemma schedule_of_append [simp]: "schedule_of (a @ b) = schedule_of a @ schedule_of b"
  by (simp add: schedule_of_def)

lemma schedule_of_Nil [simp]: "schedule_of [] = []"
  by (simp add: schedule_of_def)

lemma schedule_of_Cons [simp]:
  "schedule_of (ev # evs) = (if is_call ev then schedule_of evs else ev # schedule_of evs)"
  by (simp add: schedule_of_def)

lemma schedule_of_calls: "list_all is_call evs \<Longrightarrow> schedule_of evs = []"
  by (induction evs) auto

lemma schedule_of_processPlugin:
  "schedule_of (trace (snd (processPlugin e gp wps ids w))) = schedule_of (trace w) @ [Invoke gp]"
proof -
  obtain evs where a: "trace (snd (processPlugin e gp wps ids w)) = trace w @ Invoke gp # evs"
    and b: "writes_in_order evs"
    using processPlugin_events by blast
  from b have "schedule_of evs = []" by (simp add: writes_in_order_def schedule_of_calls)
  then show ?thesis by (simp add: a)
qed

lemma schedule_of_processPlugin_part0:
  "schedule_of (trace (snd (processPlugin_part0 e gp wps ids w))) = schedule_of (trace w) @ [Invoke gp]"
proof -
  obtain evs where a: "trace (snd (processPlugin_part0 e gp wps ids w)) = trace w @ Invoke gp # evs"
    and b: "writes_in_order evs"
    using processPlugin_part0_events by blast
  from b have "schedule_of evs = []" by (simp add: writes_in_order_def schedule_of_calls)
  then show ?thesis by (simp add: a)
qed

lemma schedule_of_fold:
  assumes "\<And>gp st. schedule_of (trace (snd (step gp st))) = schedule_of (trace (snd st)) @ [Invoke gp]"
  shows "schedule_of (trace (snd (fold step batch st))) = schedule_of (trace (snd st)) @ map Invoke batch"
  by (induction batch arbitrary: st) (simp_all add: assms)

lemma run_batches_twelve:
  assumes step: "\<And>gp st. schedule_of (trace (snd (step gp st))) = schedule_of (trace (snd st)) @ [Invoke gp]"
    and len: "length gps = 12"
  shows "schedule_of (trace (snd (run_batches step gps 0 st))) =
           schedule_of (trace (snd st))
           @ Batch (take 5 gps) # map Invoke (take 5 gps) @ [Sleep 2000]
           @ Batch (take 5 (drop 5 gps)) # map Invoke (take 5 (drop 5 gps)) @ [Sleep 2000]
           @ Batch (drop 10 gps) # map Invoke (drop 10 gps)"
  apply (subst run_batches.simps)
  apply (subst run_batches.simps)
  apply (subst run_batches.simps)
  apply (subst run_batches.simps)
  apply (simp add: len BATCH_SIZE_def DELAY_MS_def slice_def Let_def sleep_def
           schedule_of_fold [OF step])
  done


lemma run_batches_twelve_folds:
  assumes len: "length gps = 12"
  shows "run_batches step gps 0 st =
     (let b1 = take 5 gps; b2 = take 5 (drop 5 gps); b3 = drop 10 gps;
          s1 = fold step b1 (fst st, (snd st)\<lparr>trace := trace (snd st) @ [Batch b1]\<rparr>);
          s2 = fold step b2 (fst s1, (snd s1)\<lparr>trace := trace (snd s1) @ [Sleep 2000, Batch b2]\<rparr>);
          s3 = fold step b3 (fst s2, (snd s2)\<lparr>trace := trace (snd s2) @ [Sleep 2000, Batch b3]\<rparr>)
      in s3)"
  apply (subst run_batches.simps)
  apply (subst run_batches.simps)
  apply (subst run_batches.simps)
  apply (subst run_batches.simps)
  apply (simp add: len BATCH_SIZE_def DELAY_MS_def slice_def Let_def sleep_def del: fold_simps)
  done


section \<open>The body of the try, case by case\<close>

text \<open>
  What the body of the \<^verbatim>\<open>try\<close> of \<^verbatim>\<open>processPlugin\<close> does when
  \<^verbatim>\<open>gitUrlParse\<close> throws, when an enrichment call throws, when there is no README
  content, when \<^verbatim>\<open>formatTitle\<close> throws, and when the writes are reached.
\<close>


lemma processPlugin_try_parse_throws:
  "gitUrlParse e (gp_githubUrl gp) = Inl err \<Longrightarrow> processPlugin_try e gp wps ids w = (Inl err, w)"
  by (simp add: processPlugin_try_def)

lemma processPlugin_try_enrichment_throws:
  "gitUrlParse e (gp_githubUrl gp) = Inr parsed \<Longrightarrow>
   g = (case parsed of None \<Rightarrow> no_gitUrl | Some p \<Rightarrow> p) \<Longrightarrow>
   promise_all3 (getRepoInfo e g) (getNpmDownloads e (gp_name gp) (gu_name g)) (getReadmeContent e g) = Inl err \<Longrightarrow>
   processPlugin_try e gp wps ids w = (Inl err, w)"
  by (simp add: processPlugin_try_def)

lemma processPlugin_try_no_content:
  "gitUrlParse e (gp_githubUrl gp) = Inr parsed \<Longrightarrow>
   g = (case parsed of None \<Rightarrow> no_gitUrl | Some p \<Rightarrow> p) \<Longrightarrow>
   promise_all3 (getRepoInfo e g) (getNpmDownloads e (gp_name gp) (gu_name g)) (getReadmeContent e g)
     = Inr (repoInfo, npmDownloads, readmeContent) \<Longrightarrow>
   no_content (case readmeContent of None \<Rightarrow> None | Some r \<Rightarrow> rm_content r) \<Longrightarrow>
   processPlugin_try e gp wps ids w = no_content_branch e gp (findPluginByName wps (gp_name gp)) ids w"
  by (simp add: processPlugin_try_def)

lemma processPlugin_try_formatTitle_throws:
  "gitUrlParse e (gp_githubUrl gp) = Inr parsed \<Longrightarrow>
   g = (case parsed of None \<Rightarrow> no_gitUrl | Some p \<Rightarrow> p) \<Longrightarrow>
   promise_all3 (getRepoInfo e g) (getNpmDownloads e (gp_name gp) (gu_name g)) (getReadmeContent e g)
     = Inr (repoInfo, npmDownloads, readmeContent) \<Longrightarrow>
   \<not> no_content (case readmeContent of None \<Rightarrow> None | Some r \<Rightarrow> rm_content r) \<Longrightarrow>
   formatTitle e (gp_name gp) = Inl err \<Longrightarrow>
   processPlugin_try e gp wps ids w = (Inl err, w)"
  by (simp add: processPlugin_try_def)

lemma processPlugin_try_write:
  "gitUrlParse e (gp_githubUrl gp) = Inr parsed \<Longrightarrow>
   g = (case parsed of None \<Rightarrow> no_gitUrl | Some p \<Rightarrow> p) \<Longrightarrow>
   promise_all3 (getRepoInfo e g) (getNpmDownloads e (gp_name gp) (gu_name g)) (getReadmeContent e g)
     = Inr (repoInfo, npmDownloads, readmeContent) \<Longrightarrow>
   (case readmeContent of None \<Rightarrow> None | Some r \<Rightarrow> rm_content r) = Some c \<Longrightarrow> c \<noteq> [] \<Longrightarrow>
   formatTitle e (gp_name gp) = Inr title \<Longrightarrow>
   info = (case repoInfo of None \<Rightarrow> no_repoInfo | Some r \<Rightarrow> r) \<Longrightarrow>
   processPlugin_try e gp wps ids w =
     write_branch e gp (findPluginByName wps (gp_name gp)) c
       (mk_fieldData gp title (basename e (gp_githubUrl gp)) c npmDownloads info)
       (mk_algoliaItem gp (basename e (gp_githubUrl gp)) npmDownloads info) ids w"
  by (simp add: processPlugin_try_def no_content_def Let_def)

text \<open>The same for part_000.\<close>

lemma processPlugin_try_part0_no_content:
  "gitUrlParse e (gp_githubUrl gp) = Inr parsed \<Longrightarrow>
   g = (case parsed of None \<Rightarrow> no_gitUrl | Some p \<Rightarrow> p) \<Longrightarrow>
   promise_all3 (getRepoInfo e g) (getNpmDownloads e (gp_name gp) (gu_name g)) (getReadmeContent e g)
     = Inr (repoInfo, npmDownloads, readmeContent) \<Longrightarrow>
   no_content (case readmeContent of None \<Rightarrow> None | Some r \<Rightarrow> rm_content r) \<Longrightarrow>
   processPlugin_try_part0 e gp wps ids w = no_content_branch_part0 gp ids w"
  by (simp add: processPlugin_try_part0_def)

lemma processPlugin_try_part0_write:
  "gitUrlParse e (gp_githubUrl gp) = Inr parsed \<Longrightarrow>
   g = (case parsed of None \<Rightarrow> no_gitUrl | Some p \<Rightarrow> p) \<Longrightarrow>
   promise_all3 (getRepoInfo e g) (getNpmDownloads e (gp_name gp) (gu_name g)) (getReadmeContent e g)
     = Inr (repoInfo, npmDownloads, readmeContent) \<Longrightarrow>
   (case readmeContent of None \<Rightarrow> None | Some r \<Rightarrow> rm_content r) = Some c \<Longrightarrow> c \<noteq> [] \<Longrightarrow>
   formatTitle e (gp_name gp) = Inr title \<Longrightarrow>
   info = (case repoInfo of None \<Rightarrow> no_repoInfo | Some r \<Rightarrow> r) \<Longrightarrow>
   processPlugin_try_part0 e gp wps ids w =
     write_branch_part0 e gp (findPluginByName wps (gp_name gp))
       (mk_fieldData gp title (basename e (gp_githubUrl gp)) c npmDownloads info)
       (mk_algoliaItem gp (basename e (gp_githubUrl gp)) npmDownloads info) ids w"
  by (simp add: processPlugin_try_part0_def no_content_def Let_def)

text \<open>The body is one of: a throw before any store call, the no-content branch, the write branch.\<close>

lemma processPlugin_try_cases:
  "(\<exists>err. processPlugin_try e gp wps ids w = (Inl err, w))
   \<or> processPlugin_try e gp wps ids w = no_content_branch e gp (findPluginByName wps (gp_name gp)) ids w
   \<or> (\<exists>c fd item. processPlugin_try e gp wps ids w =
         write_branch e gp (findPluginByName wps (gp_name gp)) c fd item ids w)"
  unfolding processPlugin_try_def Let_def
  by (auto split: sum.splits prod.splits)









lemmas run_defs = processPlugin_def processPlugin_try_def write_branch_def no_content_branch_def
  processDeletePlugin_def processPlugin_part0_def processPlugin_try_part0_def
  write_branch_part0_def no_content_branch_part0_def
  findPluginByName_def promise_all3_def no_content_def store_defs log_error_def Let_def

lemmas sample_defs = sample_env_def sample_plugin_def sample_item_def sample_fieldData_def
  sample_env_no_readme_def throws_on_delete_def throws_on_write_def initial_world_def
  fresh_id_def

section \<open>C4: twelve entries, three batches, two delays\<close>

text \<open>
  With every write to the Webflow collection throwing, \<^verbatim>\<open>processPlugin\<close> on an empty
  listing records the entry as failed and changes nothing else but the log and the trace.
\<close>

lemma processPlugin_create_throws_sample:
  "snd (processPlugin (sample_env\<lparr>fails := throws_on_write\<rparr>) gp [] ids w) =
     w\<lparr>failedPlugins := failedPlugins w @ [(gp_name gp, ''Webflow or Algolia error: boom'')],
       console_error := console_error w @ [''Failed to process '' @ gp_name gp @ '' boom''],
       trace := trace w @ [Invoke gp,
          Call (CreateWebflowItem (mk_fieldData gp (gp_name gp)
                  (rev (takeWhile (\<lambda>c. c \<noteq> CHR ''/'') (rev (gp_githubUrl gp)))) ''# readme'' (Some 3)
                  \<lparr>ri_githubStars = Some 7, ri_authorAvatar = None, ri_authorLink = None,
                     ri_authorName = Some ''acme''\<rparr>)) (Some (Error ''boom''))]\<rparr>"
  by (simp add: run_defs sample_defs)

lemma failedPlugins_fold:
  assumes "\<And>gp st. failedPlugins (snd (step gp st)) = failedPlugins (snd st) @ [f gp]"
  shows "failedPlugins (snd (fold step batch st)) = failedPlugins (snd st) @ map f batch"
  by (induction batch arbitrary: st) (simp_all add: assms)


text \<open>
  C4. For a manifest of twelve entries the loop of \<^verbatim>\<open>syncPlugins\<close> is three folds of
  its step, over the first five, the next five and the last two entries of the manifest:
  every entry is handed to the step once, in manifest order, each call starting from the
  state the call before it left, whatever the step does (so also when it records a
  failure). The loop sleeps \<^verbatim>\<open>DELAY_MS\<close> between the first and the second batch and
  between the second and the third, and not after the third. With \<^verbatim>\<open>processPlugin\<close>
  of sync-plugins.js or of part_000 as the step and any environment, the scheduling events
  of the trace are the three batches, the twelve invocations and the two sleeps. The
  three batches are contiguous, make up the manifest, and have five, five and two entries.
\<close>

theorem C4_twelve_entries_three_batches:
  assumes "length githubPlugins = 12"
  shows "run_batches step githubPlugins 0 st =
           (let b1 = take 5 githubPlugins;
                b2 = take 5 (drop 5 githubPlugins);
                b3 = drop 10 githubPlugins;
                s1 = fold step b1 (fst st, (snd st)\<lparr>trace := trace (snd st) @ [Batch b1]\<rparr>);
                s2 = fold step b2 (fst s1, (snd s1)\<lparr>trace := trace (snd s1) @ [Sleep 2000, Batch b2]\<rparr>);
                s3 = fold step b3 (fst s2, (snd s2)\<lparr>trace := trace (snd s2) @ [Sleep 2000, Batch b3]\<rparr>)
            in s3)
         \<and> schedule_of (trace (snd (run_batches
            (\<lambda>githubPlugin st. processPlugin e githubPlugin webflowPlugins (fst st) (snd st))
            githubPlugins 0 (ids, w)))) =
           schedule_of (trace w)
           @ Batch (take 5 githubPlugins) # map Invoke (take 5 githubPlugins) @ [Sleep 2000]
           @ Batch (take 5 (drop 5 githubPlugins)) # map Invoke (take 5 (drop 5 githubPlugins)) @ [Sleep 2000]
           @ Batch (drop 10 githubPlugins) # map Invoke (drop 10 githubPlugins)
         \<and> schedule_of (trace (snd (run_batches
            (\<lambda>githubPlugin st. processPlugin_part0 e githubPlugin webflowPlugins (fst st) (snd st))
            githubPlugins 0 (ids, w)))) =
           schedule_of (trace w)
           @ Batch (take 5 githubPlugins) # map Invoke (take 5 githubPlugins) @ [Sleep 2000]
           @ Batch (take 5 (drop 5 githubPlugins)) # map Invoke (take 5 (drop 5 githubPlugins)) @ [Sleep 2000]
           @ Batch (drop 10 githubPlugins) # map Invoke (drop 10 githubPlugins)
         \<and> take 5 githubPlugins @ take 5 (drop 5 githubPlugins) @ drop 10 githubPlugins = githubPlugins
         \<and> length (take 5 githubPlugins) = 5 \<and> length (take 5 (drop 5 githubPlugins)) = 5
         \<and> length (drop 10 githubPlugins) = 2"
proof -
  have "take 5 githubPlugins @ take 5 (drop 5 githubPlugins) @ drop 10 githubPlugins = githubPlugins"
    by (metis append_take_drop_id numeral_Bit0 append.assoc take_add)
  then show ?thesis
    using run_batches_twelve_folds [OF assms, of step st]
      run_batches_twelve [OF schedule_of_processPlugin assms]
      run_batches_twelve [OF schedule_of_processPlugin_part0 assms] assms
    by simp
qed


text \<open>
  The sample manifest on empty stores, with every write to the Webflow collection
  throwing: each of the twelve entries is recorded as failed once, in manifest order, and
  the schedule is the one of the theorem.
\<close>

theorem C4_twelve_entries_three_batches_witness:
  "failedPlugins (snd (run_batches
      (\<lambda>githubPlugin st. processPlugin (sample_env\<lparr>fails := throws_on_write\<rparr>) githubPlugin [] (fst st) (snd st))
      sample_manifest 0 ({}, initial_world [] []))) =
     map (\<lambda>gp. (gp_name gp, ''Webflow or Algolia error: boom'')) sample_manifest
   \<and> schedule_of (trace (snd (run_batches
      (\<lambda>githubPlugin st. processPlugin (sample_env\<lparr>fails := throws_on_write\<rparr>) githubPlugin [] (fst st) (snd st))
      sample_manifest 0 ({}, initial_world [] [])))) =
     Batch (take 5 sample_manifest) # map Invoke (take 5 sample_manifest) @ [Sleep 2000]
     @ Batch (take 5 (drop 5 sample_manifest)) # map Invoke (take 5 (drop 5 sample_manifest)) @ [Sleep 2000]
     @ Batch (drop 10 sample_manifest) # map Invoke (drop 10 sample_manifest)
   \<and> length sample_manifest = 12"
proof -
  let ?step = "\<lambda>githubPlugin st. processPlugin (sample_env\<lparr>fails := throws_on_write\<rparr>) githubPlugin [] (fst st) (snd st)"
  let ?f = "\<lambda>gp. (gp_name gp, ''Webflow or Algolia error: boom'')"
  let ?st = "({}::jsval set, initial_world [] [])"
  have len: "length sample_manifest = 12" by (simp add: sample_manifest_def)
  note inst = C4_twelve_entries_three_batches [OF len, of ?step ?st
                 "sample_env\<lparr>fails := throws_on_write\<rparr>" "[]" "{}" "initial_world [] []"]
  have f: "failedPlugins (snd (fold ?step batch st)) = failedPlugins (snd st) @ map ?f batch"
    for batch st
    by (rule failedPlugins_fold) (simp add: processPlugin_create_throws_sample)
  have parts: "take 5 sample_manifest @ take 5 (drop 5 sample_manifest) @ drop 10 sample_manifest
               = sample_manifest"
    by (rule inst [THEN conjunct2, THEN conjunct2, THEN conjunct2, THEN conjunct1])
  have sched: "schedule_of (trace (snd (run_batches ?step sample_manifest 0 ?st))) =
     schedule_of (trace (initial_world [] []))
     @ Batch (take 5 sample_manifest) # map Invoke (take 5 sample_manifest) @ [Sleep 2000]
     @ Batch (take 5 (drop 5 sample_manifest)) # map Invoke (take 5 (drop 5 sample_manifest)) @ [Sleep 2000]
     @ Batch (drop 10 sample_manifest) # map Invoke (drop 10 sample_manifest)"
    by (rule inst [THEN conjunct2, THEN conjunct1])
  have folds: "run_batches ?step sample_manifest 0 ?st =
           (let b1 = take 5 sample_manifest;
                b2 = take 5 (drop 5 sample_manifest);
                b3 = drop 10 sample_manifest;
                s1 = fold ?step b1 (fst ?st, (snd ?st)\<lparr>trace := trace (snd ?st) @ [Batch b1]\<rparr>);
                s2 = fold ?step b2 (fst s1, (snd s1)\<lparr>trace := trace (snd s1) @ [Sleep 2000, Batch b2]\<rparr>);
                s3 = fold ?step b3 (fst s2, (snd s2)\<lparr>trace := trace (snd s2) @ [Sleep 2000, Batch b3]\<rparr>)
            in s3)"
    by (rule inst [THEN conjunct1])
  have "failedPlugins (snd (run_batches ?step sample_manifest 0 ?st)) =
        map ?f (take 5 sample_manifest) @ map ?f (take 5 (drop 5 sample_manifest))
        @ map ?f (drop 10 sample_manifest)"
    unfolding folds Let_def by (simp add: f initial_world_def del: fold_simps)
  also have "\<dots> = map ?f (take 5 sample_manifest @ take 5 (drop 5 sample_manifest) @ drop 10 sample_manifest)"
    by simp
  also have "\<dots> = map ?f sample_manifest" by (simp only: parts)
  finally have failed: "failedPlugins (snd (run_batches ?step sample_manifest 0 ?st)) =
        map ?f sample_manifest" .
  from failed sched len show ?thesis by (simp add: initial_world_def)
qed


section \<open>C6: what is thrown while an entry is processed\<close>

lemma invoked_append [simp]: "invoked (a @ b) = invoked a @ invoked b"
  by (induction a rule: invoked.induct) simp_all















section \<open>C2: an entry without README content\<close>

lemma collection_delete_removes: "i \<notin> wp_id ` set (collection_delete i items)"
  by (auto simp: collection_delete_def)

lemma index_delete_removes: "k \<notin> al_objectID ` set (index_delete k items)"
  by (auto simp: index_delete_def)


text \<open>
  C2 (as amended). When \<^verbatim>\<open>gitUrlParse\<close> and the three enrichment calls return and the
  README fetch yields no content, \<^verbatim>\<open>processPlugin\<close> makes no create and no update
  call and pushes the pair of the entry's name and \<^verbatim>\<open>'No README content found'\<close>
  onto \<^verbatim>\<open>failedPlugins\<close>. In sync-plugins.js, when a Webflow item of that name exists
  and both deletions return, the item is gone from the collection, its slug is gone from the
  index, and its name is pushed onto \<^verbatim>\<open>deletedPlugins\<close>; when no item exists the stores
  are untouched. In part_000 nothing is deleted: only \<^verbatim>\<open>failedPlugins\<close> changes.
\<close>

theorem C2_no_content_fails_and_deletes:
  assumes parse: "gitUrlParse e (gp_githubUrl gp) = Inr parsed"
    and g: "g = (case parsed of None \<Rightarrow> no_gitUrl | Some p \<Rightarrow> p)"
    and enrich: "promise_all3 (getRepoInfo e g) (getNpmDownloads e (gp_name gp) (gu_name g))
                   (getReadmeContent e g) = Inr (repoInfo, npmDownloads, readmeContent)"
    and nc: "no_content (case readmeContent of None \<Rightarrow> None | Some r \<Rightarrow> rm_content r)"
  shows "failedPlugins (snd (processPlugin e gp wps ids w)) =
           failedPlugins w @ [(gp_name gp, ''No README content found'')]
       \<and> createdPlugins (snd (processPlugin e gp wps ids w)) = createdPlugins w
       \<and> updatedPlugins (snd (processPlugin e gp wps ids w)) = updatedPlugins w
       \<and> list_all (\<lambda>ev. \<not> is_content_write ev \<and> \<not> is_index_write ev)
            (drop (length (trace w)) (trace (snd (processPlugin e gp wps ids w))))
       \<and> (findPluginByName wps (gp_name gp) = None \<longrightarrow>
            snd (processPlugin e gp wps ids w) =
              w\<lparr>failedPlugins := failedPlugins w @ [(gp_name gp, ''No README content found'')],
                trace := trace w @ [Invoke gp]\<rparr>)
       \<and> (\<forall>wp. findPluginByName wps (gp_name gp) = Some wp
              \<and> fails e (trace w @ [Invoke gp]) (DeleteWebflowItem (wp_id wp)) = None
              \<and> fails e (trace w @ [Invoke gp, Call (DeleteWebflowItem (wp_id wp)) None])
                   (DeleteAlgoliaItem (fd_slug (wp_fieldData wp))) = None \<longrightarrow>
            snd (processPlugin e gp wps ids w) =
              w\<lparr>webflow := collection_delete (wp_id wp) (webflow w),
                algolia := index_delete (fd_slug (wp_fieldData wp)) (algolia w),
                deletedPlugins := deletedPlugins w @ [fd_name (wp_fieldData wp)],
                failedPlugins := failedPlugins w @ [(gp_name gp, ''No README content found'')],
                trace := trace w @ [Invoke gp, Call (DeleteWebflowItem (wp_id wp)) None,
                                    Call (DeleteAlgoliaItem (fd_slug (wp_fieldData wp))) None]\<rparr>
            \<and> wp_id wp \<notin> wp_id ` set (webflow (snd (processPlugin e gp wps ids w)))
            \<and> fd_slug (wp_fieldData wp) \<notin> al_objectID ` set (algolia (snd (processPlugin e gp wps ids w))))
       \<and> snd (processPlugin_part0 e gp wps ids w) =
            w\<lparr>failedPlugins := failedPlugins w @ [(gp_name gp, ''No README content found'')],
              trace := trace w @ [Invoke gp]\<rparr>"
proof -
  let ?w0 = "w\<lparr>trace := trace w @ [Invoke gp]\<rparr>"
  let ?w1 = "?w0\<lparr>failedPlugins := failedPlugins ?w0 @ [(gp_name gp, ''No README content found'')]\<rparr>"
  let ?wpo = "findPluginByName wps (gp_name gp)"
  have body: "processPlugin_try e gp wps ids ?w0 = no_content_branch e gp ?wpo ids ?w0"
    by (rule processPlugin_try_no_content [OF parse g enrich nc])
  have body0: "processPlugin_try_part0 e gp wps ids ?w0 = no_content_branch_part0 gp ids ?w0"
    by (rule processPlugin_try_part0_no_content [OF parse g enrich nc])
  have p: "snd (processPlugin e gp wps ids w) =
             (case ?wpo of Some wp \<Rightarrow> processDeletePlugin e wp ?w1 | None \<Rightarrow> ?w1)"
    by (simp add: processPlugin_def body no_content_branch_def Let_def split: option.splits)
  have part0: "snd (processPlugin_part0 e gp wps ids w) =
            w\<lparr>failedPlugins := failedPlugins w @ [(gp_name gp, ''No README content found'')],
              trace := trace w @ [Invoke gp]\<rparr>"
    by (simp add: processPlugin_part0_def body0 no_content_branch_part0_def)
  have lists: "failedPlugins (snd (processPlugin e gp wps ids w)) =
           failedPlugins w @ [(gp_name gp, ''No README content found'')]
       \<and> createdPlugins (snd (processPlugin e gp wps ids w)) = createdPlugins w
       \<and> updatedPlugins (snd (processPlugin e gp wps ids w)) = updatedPlugins w
       \<and> list_all (\<lambda>ev. \<not> is_content_write ev \<and> \<not> is_index_write ev)
            (drop (length (trace w)) (trace (snd (processPlugin e gp wps ids w))))"
  proof (cases ?wpo)
    case None
    then show ?thesis by (simp add: p)
  next
    case (Some wp)
    show ?thesis
    proof (cases "fails e (trace ?w1) (DeleteWebflowItem (wp_id wp))")
      case (Some err)
      then show ?thesis using \<open>?wpo = Some wp\<close>
        by (simp add: p processDeletePlugin_webflow_throws)
    next
      case wf: None
      show ?thesis
      proof (cases "fails e (trace ?w1 @ [Call (DeleteWebflowItem (wp_id wp)) None])
                      (DeleteAlgoliaItem (fd_slug (wp_fieldData wp)))")
        case (Some err)
        then show ?thesis using \<open>?wpo = Some wp\<close> wf
          by (simp add: p processDeletePlugin_algolia_throws)
      next
        case None
        then show ?thesis using \<open>?wpo = Some wp\<close> wf
          by (simp add: p processDeletePlugin_returns)
      qed
    qed
  qed
  have absent: "?wpo = None \<longrightarrow>
            snd (processPlugin e gp wps ids w) =
              w\<lparr>failedPlugins := failedPlugins w @ [(gp_name gp, ''No README content found'')],
                trace := trace w @ [Invoke gp]\<rparr>"
    by (simp add: p)
  have present: "\<forall>wp. ?wpo = Some wp
              \<and> fails e (trace w @ [Invoke gp]) (DeleteWebflowItem (wp_id wp)) = None
              \<and> fails e (trace w @ [Invoke gp, Call (DeleteWebflowItem (wp_id wp)) None])
                   (DeleteAlgoliaItem (fd_slug (wp_fieldData wp))) = None \<longrightarrow>
            snd (processPlugin e gp wps ids w) =
              w\<lparr>webflow := collection_delete (wp_id wp) (webflow w),
                algolia := index_delete (fd_slug (wp_fieldData wp)) (algolia w),
                deletedPlugins := deletedPlugins w @ [fd_name (wp_fieldData wp)],
                failedPlugins := failedPlugins w @ [(gp_name gp, ''No README content found'')],
                trace := trace w @ [Invoke gp, Call (DeleteWebflowItem (wp_id wp)) None,
                                    Call (DeleteAlgoliaItem (fd_slug (wp_fieldData wp))) None]\<rparr>
            \<and> wp_id wp \<notin> wp_id ` set (webflow (snd (processPlugin e gp wps ids w)))
            \<and> fd_slug (wp_fieldData wp) \<notin> al_objectID ` set (algolia (snd (processPlugin e gp wps ids w)))"
  proof (intro allI impI, elim conjE)
    fix wp
    assume f: "?wpo = Some wp"
      and wf: "fails e (trace w @ [Invoke gp]) (DeleteWebflowItem (wp_id wp)) = None"
      and al: "fails e (trace w @ [Invoke gp, Call (DeleteWebflowItem (wp_id wp)) None])
                   (DeleteAlgoliaItem (fd_slug (wp_fieldData wp))) = None"
    have "snd (processPlugin e gp wps ids w) = processDeletePlugin e wp ?w1"
      by (simp add: p f)
    also have "\<dots> = ?w1\<lparr>webflow := collection_delete (wp_id wp) (webflow ?w1),
                algolia := index_delete (fd_slug (wp_fieldData wp)) (algolia ?w1),
                deletedPlugins := deletedPlugins ?w1 @ [fd_name (wp_fieldData wp)],
                trace := trace ?w1 @ [Call (DeleteWebflowItem (wp_id wp)) None,
                                    Call (DeleteAlgoliaItem (fd_slug (wp_fieldData wp))) None]\<rparr>"
      using wf al by (intro processDeletePlugin_returns) simp_all
    finally have eq: "snd (processPlugin e gp wps ids w) =
              w\<lparr>webflow := collection_delete (wp_id wp) (webflow w),
                algolia := index_delete (fd_slug (wp_fieldData wp)) (algolia w),
                deletedPlugins := deletedPlugins w @ [fd_name (wp_fieldData wp)],
                failedPlugins := failedPlugins w @ [(gp_name gp, ''No README content found'')],
                trace := trace w @ [Invoke gp, Call (DeleteWebflowItem (wp_id wp)) None,
                                    Call (DeleteAlgoliaItem (fd_slug (wp_fieldData wp))) None]\<rparr>"
      by simp
    show "snd (processPlugin e gp wps ids w) =
              w\<lparr>webflow := collection_delete (wp_id wp) (webflow w),
                algolia := index_delete (fd_slug (wp_fieldData wp)) (algolia w),
                deletedPlugins := deletedPlugins w @ [fd_name (wp_fieldData wp)],
                failedPlugins := failedPlugins w @ [(gp_name gp, ''No README content found'')],
                trace := trace w @ [Invoke gp, Call (DeleteWebflowItem (wp_id wp)) None,
                                    Call (DeleteAlgoliaItem (fd_slug (wp_fieldData wp))) None]\<rparr>
            \<and> wp_id wp \<notin> wp_id ` set (webflow (snd (processPlugin e gp wps ids w)))
            \<and> fd_slug (wp_fieldData wp) \<notin> al_objectID ` set (algolia (snd (processPlugin e gp wps ids w)))"
      unfolding eq using collection_delete_removes index_delete_removes by simp
  qed
  from lists absent present part0 show ?thesis by blast
qed


text \<open>The sample entry with its item and no README content, no call throwing.\<close>

theorem C2_no_content_fails_and_deletes_witness:
  "failedPlugins (snd (processPlugin sample_env_no_readme sample_plugin [sample_item] {}
       (initial_world [sample_item] []))) = [(''serverless-foo'', ''No README content found'')]
   \<and> webflow (snd (processPlugin sample_env_no_readme sample_plugin [sample_item] {}
       (initial_world [sample_item] []))) = []
   \<and> deletedPlugins (snd (processPlugin sample_env_no_readme sample_plugin [sample_item] {}
       (initial_world [sample_item] []))) = [''serverless-foo'']
   \<and> trace (snd (processPlugin sample_env_no_readme sample_plugin [sample_item] {}
       (initial_world [sample_item] []))) =
       [Invoke sample_plugin, Call (DeleteWebflowItem 1) None, Call (DeleteAlgoliaItem ''serverless-foo'') None]
   \<and> webflow (snd (processPlugin_part0 sample_env_no_readme sample_plugin [sample_item] {}
       (initial_world [sample_item] []))) = [sample_item]"
  using C2_no_content_fails_and_deletes [of sample_env_no_readme sample_plugin
          "Some \<lparr>gu_source = Some ''github.com'', gu_owner = Some ''acme'', gu_name = Some ''serverless-foo''\<rparr>"
          "\<lparr>gu_source = Some ''github.com'', gu_owner = Some ''acme'', gu_name = Some ''serverless-foo''\<rparr>"
          "Some \<lparr>ri_githubStars = Some 7, ri_authorAvatar = None, ri_authorLink = None, ri_authorName = Some ''acme''\<rparr>"
          "Some 3" None "[sample_item]" "{}" "initial_world [sample_item] []"]
  by (simp add: sample_defs findPluginByName_def promise_all3_def no_content_def
        collection_delete_def index_delete_def)


text \<open>
  The claim as first stated has the item deleted from both stores. In part_000 the
  sample entry has an item and no README content, and no store call is made.
\<close>

theorem C2_no_content_fails_and_deletes_counterexample:
  "findPluginByName [sample_item] (gp_name sample_plugin) = Some sample_item
   \<and> trace (snd (processPlugin_part0 sample_env_no_readme sample_plugin [sample_item] {}
                   (initial_world [sample_item] []))) = [Invoke sample_plugin]
   \<and> webflow (snd (processPlugin_part0 sample_env_no_readme sample_plugin [sample_item] {}
                   (initial_world [sample_item] []))) = [sample_item]
   \<and> failedPlugins (snd (processPlugin_part0 sample_env_no_readme sample_plugin [sample_item] {}
                   (initial_world [sample_item] []))) = [(''serverless-foo'', ''No README content found'')]"
  by (simp add: run_defs sample_defs)



section \<open>C1: an entry with content and a Webflow item\<close>

text \<open>
  An entry with README content whose Webflow item \<^verbatim>\<open>findPluginByName\<close> finds.
  sync-plugins.js binds the value of
  \<^verbatim>\<open>isPluginEqual(githubPlugin, webflowPlugin.fieldData, content)\<close> to
  \<^verbatim>\<open>hasChanged\<close> (lines 114 to 118): the update of both stores and the push onto
  \<^verbatim>\<open>updatedPlugins\<close> run when that value is truthy, and nothing is done when it is
  falsy (the branch that logs "No changes detected"). part_000 has no comparison
  (lines 164 to 172).
\<close>

lemma processPlugin_existing_record:
  assumes parse: "gitUrlParse e (gp_githubUrl gp) = Inr parsed"
    and g: "g = (case parsed of None \<Rightarrow> no_gitUrl | Some p \<Rightarrow> p)"
    and enrich: "promise_all3 (getRepoInfo e g) (getNpmDownloads e (gp_name gp) (gu_name g))
                   (getReadmeContent e g) = Inr (repoInfo, npmDownloads, readmeContent)"
    and content: "(case readmeContent of None \<Rightarrow> None | Some r \<Rightarrow> rm_content r) = Some c" "c \<noteq> []"
    and title: "formatTitle e (gp_name gp) = Inr title"
    and info: "info = (case repoInfo of None \<Rightarrow> no_repoInfo | Some r \<Rightarrow> r)"
    and found: "findPluginByName wps (gp_name gp) = Some wp"
    and fd: "fd = mk_fieldData gp title (basename e (gp_githubUrl gp)) c npmDownloads info"
    and item: "item = mk_algoliaItem gp (basename e (gp_githubUrl gp)) npmDownloads info"
  shows "(\<not> isPluginEqual e gp (wp_fieldData wp) c \<longrightarrow>
            snd (processPlugin e gp wps ids w) = w\<lparr>trace := trace w @ [Invoke gp]\<rparr>)
       \<and> (isPluginEqual e gp (wp_fieldData wp) c
            \<and> fails e (trace w @ [Invoke gp]) (UpdateWebflowItem (wp_id wp) fd) = None
            \<and> fails e (trace w @ [Invoke gp, Call (UpdateWebflowItem (wp_id wp) fd) None])
                 (UpdateAlgoliaItem item) = None \<longrightarrow>
            snd (processPlugin e gp wps ids w) =
              w\<lparr>webflow := collection_update (wp_id wp) fd (webflow w),
                algolia := index_update item (algolia w),
                updatedPlugins := updatedPlugins w @ [gp_name gp],
                trace := trace w @ [Invoke gp, Call (UpdateWebflowItem (wp_id wp) fd) None,
                                    Call (UpdateAlgoliaItem item) None]\<rparr>)
       \<and> (fails e (trace w @ [Invoke gp]) (UpdateWebflowItem (wp_id wp) fd) = None
            \<and> fails e (trace w @ [Invoke gp, Call (UpdateWebflowItem (wp_id wp) fd) None])
                 (UpdateAlgoliaItem item) = None \<longrightarrow>
            snd (processPlugin_part0 e gp wps ids w) =
              w\<lparr>webflow := collection_update (wp_id wp) fd (webflow w),
                algolia := index_update item (algolia w),
                updatedPlugins := updatedPlugins w @ [gp_name gp],
                trace := trace w @ [Invoke gp, Call (UpdateWebflowItem (wp_id wp) fd) None,
                                    Call (UpdateAlgoliaItem item) None]\<rparr>)"
proof -
  let ?w0 = "w\<lparr>trace := trace w @ [Invoke gp]\<rparr>"
  have body: "processPlugin_try e gp wps ids ?w0 = write_branch e gp (Some wp) c fd item ids ?w0"
    using processPlugin_try_write [OF parse g enrich content title info, of wps ids ?w0]
    by (simp add: found fd item)
  have body0: "processPlugin_try_part0 e gp wps ids ?w0 = write_branch_part0 e gp (Some wp) fd item ids ?w0"
    using processPlugin_try_part0_write [OF parse g enrich content title info, of wps ids ?w0]
    by (simp add: found fd item)
  have skip: "\<not> isPluginEqual e gp (wp_fieldData wp) c \<longrightarrow>
            snd (processPlugin e gp wps ids w) = w\<lparr>trace := trace w @ [Invoke gp]\<rparr>"
    by (simp add: processPlugin_def body write_branch_skip)
  have upd: "isPluginEqual e gp (wp_fieldData wp) c
            \<and> fails e (trace w @ [Invoke gp]) (UpdateWebflowItem (wp_id wp) fd) = None
            \<and> fails e (trace w @ [Invoke gp, Call (UpdateWebflowItem (wp_id wp) fd) None])
                 (UpdateAlgoliaItem item) = None \<longrightarrow>
            snd (processPlugin e gp wps ids w) =
              w\<lparr>webflow := collection_update (wp_id wp) fd (webflow w),
                algolia := index_update item (algolia w),
                updatedPlugins := updatedPlugins w @ [gp_name gp],
                trace := trace w @ [Invoke gp, Call (UpdateWebflowItem (wp_id wp) fd) None,
                                    Call (UpdateAlgoliaItem item) None]\<rparr>"
    by (simp add: processPlugin_def body write_branch_update_returns)
  have upd0: "fails e (trace w @ [Invoke gp]) (UpdateWebflowItem (wp_id wp) fd) = None
            \<and> fails e (trace w @ [Invoke gp, Call (UpdateWebflowItem (wp_id wp) fd) None])
                 (UpdateAlgoliaItem item) = None \<longrightarrow>
            snd (processPlugin_part0 e gp wps ids w) =
              w\<lparr>webflow := collection_update (wp_id wp) fd (webflow w),
                algolia := index_update item (algolia w),
                updatedPlugins := updatedPlugins w @ [gp_name gp],
                trace := trace w @ [Invoke gp, Call (UpdateWebflowItem (wp_id wp) fd) None,
                                    Call (UpdateAlgoliaItem item) None]\<rparr>"
    by (simp add: processPlugin_part0_def body0 write_branch_part0_update_returns)
  from skip upd upd0 show ?thesis by blast
qed



text \<open>
  With the equality check of the specification as \<^verbatim>\<open>isPluginEqual\<close>: the check
  answers true on the field data the script assembles, so an entry whose stored field data
  are the assembled ones is updated in both stores and recorded as updated whenever the two
  update calls return.
\<close>

lemma isPluginEqual_spec_assembled:
  "isPluginEqual_spec gp (mk_fieldData gp title slug c npmDownloads info) c"
  by (simp add: isPluginEqual_spec_def mk_fieldData_def)

lemma unchanged_record_is_updated:
  assumes parse: "gitUrlParse e (gp_githubUrl gp) = Inr parsed"
    and g: "g = (case parsed of None \<Rightarrow> no_gitUrl | Some p \<Rightarrow> p)"
    and enrich: "promise_all3 (getRepoInfo e g) (getNpmDownloads e (gp_name gp) (gu_name g))
                   (getReadmeContent e g) = Inr (repoInfo, npmDownloads, readmeContent)"
    and content: "(case readmeContent of None \<Rightarrow> None | Some r \<Rightarrow> rm_content r) = Some c" "c \<noteq> []"
    and title: "formatTitle e (gp_name gp) = Inr title"
    and info: "info = (case repoInfo of None \<Rightarrow> no_repoInfo | Some r \<Rightarrow> r)"
    and found: "findPluginByName wps (gp_name gp) = Some wp"
    and fd: "fd = mk_fieldData gp title (basename e (gp_githubUrl gp)) c npmDownloads info"
    and item: "item = mk_algoliaItem gp (basename e (gp_githubUrl gp)) npmDownloads info"
    and equality: "isPluginEqual e = isPluginEqual_spec"
    and stored: "wp_fieldData wp = fd"
    and returns: "fails e (trace w @ [Invoke gp]) (UpdateWebflowItem (wp_id wp) fd) = None"
      "fails e (trace w @ [Invoke gp, Call (UpdateWebflowItem (wp_id wp) fd) None])
                 (UpdateAlgoliaItem item) = None"
  shows "snd (processPlugin e gp wps ids w) =
              w\<lparr>webflow := collection_update (wp_id wp) fd (webflow w),
                algolia := index_update item (algolia w),
                updatedPlugins := updatedPlugins w @ [gp_name gp],
                trace := trace w @ [Invoke gp, Call (UpdateWebflowItem (wp_id wp) fd) None,
                                    Call (UpdateAlgoliaItem item) None]\<rparr>"
proof -
  have "isPluginEqual e gp (wp_fieldData wp) c"
    by (simp add: equality stored fd isPluginEqual_spec_assembled)
  with processPlugin_existing_record [OF parse g enrich content title info found fd item, of ids w]
    returns
  show ?thesis by blast
qed





section \<open>C9: the set webflowPluginIds\<close>

text \<open>Forgetting the set in a result of the body.\<close>

lemma no_content_branch_noset:
  "no_content_branch_noset e gp wpo w =
     (map_sum id (\<lambda>s. ()) (fst (no_content_branch e gp wpo ids w)), snd (no_content_branch e gp wpo ids w))"
  by (simp add: no_content_branch_noset_def no_content_branch_def Let_def split: option.splits)

lemma write_branch_noset:
  "write_branch_noset e gp wpo c fd item w =
     (map_sum id (\<lambda>s. ()) (fst (write_branch e gp wpo c fd item ids w)), snd (write_branch e gp wpo c fd item ids w))"
  by (simp add: write_branch_noset_def write_branch_def Let_def split: option.splits sum.splits prod.splits)

lemma processPlugin_try_noset:
  "processPlugin_try_noset e gp wps w =
     (map_sum id (\<lambda>s. ()) (fst (processPlugin_try e gp wps ids w)), snd (processPlugin_try e gp wps ids w))"
  unfolding processPlugin_try_noset_def processPlugin_try_def Let_def
  by (simp add: no_content_branch_noset [of _ _ _ _ ids] write_branch_noset [of _ _ _ _ _ _ _ ids]
        split: sum.splits prod.splits)

lemma processPlugin_noset:
  "processPlugin_noset e gp wps w = snd (processPlugin e gp wps ids w)"
  unfolding processPlugin_noset_def processPlugin_def
  by (cases "processPlugin_try e gp wps ids (w\<lparr>trace := trace w @ [Invoke gp]\<rparr>)")
     (simp add: processPlugin_try_noset [of _ _ _ _ ids] split: sum.splits)

lemma fold_noset:
  "snd (fold (\<lambda>gp st. processPlugin e gp wps (fst st) (snd st)) batch (ids, w)) =
   fold (\<lambda>gp w. processPlugin_noset e gp wps w) batch w"
proof (induction batch arbitrary: ids w)
  case Nil
  show ?case by simp
next
  case (Cons gp batch)
  show ?case
    using Cons.IH [of "fst (processPlugin e gp wps ids w)" "snd (processPlugin e gp wps ids w)"]
    by (simp add: processPlugin_noset [of e gp wps w ids])
qed

lemma run_batches_noset:
  "snd (run_batches (\<lambda>gp st. processPlugin e gp wps (fst st) (snd st)) gps i (ids, w)) =
   run_batches_noset (\<lambda>gp w. processPlugin_noset e gp wps w) gps i w"
proof (induction "length gps - i" arbitrary: i ids w rule: less_induct)
  case less
  show ?case
  proof (cases "i < length gps")
    case False
    then show ?thesis
      by (subst run_batches.simps, subst run_batches_noset.simps) simp
  next
    case True
    let ?batch = "slice gps i (i + BATCH_SIZE)"
    let ?st1 = "fold (\<lambda>gp st. processPlugin e gp wps (fst st) (snd st)) ?batch
                  (ids, w\<lparr>trace := trace w @ [Batch ?batch]\<rparr>)"
    let ?w1 = "fold (\<lambda>gp w. processPlugin_noset e gp wps w) ?batch
                 (w\<lparr>trace := trace w @ [Batch ?batch]\<rparr>)"
    let ?w2 = "if i + BATCH_SIZE < length gps then sleep DELAY_MS ?w1 else ?w1"
    have f: "snd ?st1 = ?w1"
      by (rule fold_noset)
    have st2: "(if i + BATCH_SIZE < length gps then (fst ?st1, sleep DELAY_MS (snd ?st1)) else ?st1)
               = (fst ?st1, ?w2)"
      using f by (simp add: prod_eq_iff)
    have smaller: "length gps - (i + BATCH_SIZE) < length gps - i"
      using True by (simp add: BATCH_SIZE_def)
    have "snd (run_batches (\<lambda>gp st. processPlugin e gp wps (fst st) (snd st)) gps i (ids, w)) =
          snd (run_batches (\<lambda>gp st. processPlugin e gp wps (fst st) (snd st)) gps (i + BATCH_SIZE)
                 (fst ?st1, ?w2))"
      by (subst run_batches.simps) (simp add: True Let_def st2 del: fold_simps)
    also have "\<dots> = run_batches_noset (\<lambda>gp w. processPlugin_noset e gp wps w) gps (i + BATCH_SIZE) ?w2"
      by (rule less.hyps [OF smaller])
    also have "\<dots> = run_batches_noset (\<lambda>gp w. processPlugin_noset e gp wps w) gps i w"
      by (subst (2) run_batches_noset.simps) (simp add: True Let_def)
    finally show ?thesis .
  qed
qed

text \<open>
  C9. The set \<^verbatim>\<open>webflowPluginIds\<close> is built in \<^verbatim>\<open>syncPlugins\<close> and passed to
  \<^verbatim>\<open>processPlugin\<close>, which only deletes from it; nothing reads it. The program without
  the set makes the same store calls in the same order, ends with the same stores and
  the same four report lists, logs the same, and exits the same way: the two runs are
  equal, for every environment, manifest and starting state. One call of
  \<^verbatim>\<open>processPlugin\<close> leaves the same world whatever the set holds.
\<close>

theorem C9_set_is_never_read:
  "syncPlugins_noset e githubPlugins w = syncPlugins e githubPlugins w
   \<and> processPlugin_noset e gp wps w = snd (processPlugin e gp wps ids w)"
proof -
  have "syncPlugins_noset e githubPlugins w = syncPlugins e githubPlugins w"
    unfolding syncPlugins_noset_def syncPlugins_def Let_def
    by (simp add: run_batches_noset split: sum.splits prod.splits)
  then show ?thesis by (simp add: processPlugin_noset [of e gp wps w ids])
qed



section \<open>Invariants of the scheduler loop\<close>

lemma fold_invariant:
  assumes "P st" and "set batch \<subseteq> A"
    and "\<And>gp st. gp \<in> A \<Longrightarrow> P st \<Longrightarrow> P (step gp st)"
  shows "P (fold step batch st)"
  using assms(1,2)
  by (induction batch arbitrary: st) (auto intro: assms(3))

lemma set_slice: "set (slice xs i j) \<subseteq> set xs"
  unfolding slice_def by (meson set_drop_subset set_take_subset subset_trans)

lemma run_batches_invariant:
  assumes init: "P st"
    and step: "\<And>gp st. gp \<in> set gps \<Longrightarrow> P st \<Longrightarrow> P (step gp st)"
    and mark: "\<And>ids w ev. P (ids, w) \<Longrightarrow> P (ids, w\<lparr>trace := trace w @ [ev]\<rparr>)"
  shows "P (run_batches step gps i st)"
  using init
proof (induction "length gps - i" arbitrary: i st rule: less_induct)
  case less
  show ?case
  proof (cases "i < length gps")
    case False
    then show ?thesis using less.prems by (subst run_batches.simps) simp
  next
    case True
    let ?batch = "slice gps i (i + BATCH_SIZE)"
    let ?st1 = "fold step ?batch (fst st, (snd st)\<lparr>trace := trace (snd st) @ [Batch ?batch]\<rparr>)"
    let ?st2 = "if i + BATCH_SIZE < length gps then (fst ?st1, sleep DELAY_MS (snd ?st1)) else ?st1"
    have "P (fst st, (snd st)\<lparr>trace := trace (snd st) @ [Batch ?batch]\<rparr>)"
      using mark [of "fst st" "snd st"] less.prems by simp
    then have p1: "P ?st1"
      by (rule fold_invariant [where A = "set gps"]) (auto simp: set_slice intro: step)
    have p2: "P ?st2"
      using p1 mark [of "fst ?st1" "snd ?st1" "Sleep DELAY_MS"] by (simp add: sleep_def)
    have smaller: "length gps - (i + BATCH_SIZE) < length gps - i"
      using True by (simp add: BATCH_SIZE_def)
    have "run_batches step gps i st = run_batches step gps (i + BATCH_SIZE) ?st2"
      by (subst run_batches.simps) (simp add: True Let_def del: fold_simps)
    then show ?thesis
      using less.hyps [OF smaller p2] by simp
  qed
qed


section \<open>C5: the orphans are deleted\<close>

text \<open>What one entry does to \<^verbatim>\<open>deletedPlugins\<close>: nothing, or it pushes its own name.\<close>

lemma findPluginByName_name:
  "findPluginByName wps n = Some wp \<Longrightarrow> fd_name (wp_fieldData wp) = n \<and> wp \<in> set wps"
  by (auto simp: findPluginByName_def find_Some_iff)

lemma findPluginByName_manifest_None:
  "findPluginByName_manifest gps n = None \<longleftrightarrow> n \<notin> gp_name ` set gps"
  by (auto simp: findPluginByName_manifest_def find_None_iff)

lemma processDeletePlugin_deleted:
  "deletedPlugins (processDeletePlugin e wp w) = deletedPlugins w
   \<or> deletedPlugins (processDeletePlugin e wp w) = deletedPlugins w @ [fd_name (wp_fieldData wp)]"
  by (simp add: processDeletePlugin_def store_defs log_error_def split: option.splits)

lemma write_branch_deleted:
  "deletedPlugins (snd (write_branch e gp wpo c fd item ids w)) = deletedPlugins w"
  by (simp add: write_branch_def store_defs Let_def split: option.splits)

lemma processPlugin_try_deleted:
  "deletedPlugins (snd (processPlugin_try e gp wps ids w)) = deletedPlugins w
   \<or> deletedPlugins (snd (processPlugin_try e gp wps ids w)) = deletedPlugins w @ [gp_name gp]"
  using processPlugin_try_cases [of e gp wps ids w]
proof (elim disjE exE)
  fix err assume "processPlugin_try e gp wps ids w = (Inl err, w)"
  then show ?thesis by simp
next
  assume a: "processPlugin_try e gp wps ids w =
               no_content_branch e gp (findPluginByName wps (gp_name gp)) ids w"
  show ?thesis
  proof (cases "findPluginByName wps (gp_name gp)")
    case None
    then show ?thesis by (simp add: a no_content_branch_def)
  next
    case (Some wp)
    then show ?thesis
      using processDeletePlugin_deleted [of e wp
              "w\<lparr>failedPlugins := failedPlugins w @ [(gp_name gp, ''No README content found'')]\<rparr>"]
        findPluginByName_name [OF Some]
      by (auto simp: a no_content_branch_def)
  qed
next
  fix c fd item
  assume "processPlugin_try e gp wps ids w =
            write_branch e gp (findPluginByName wps (gp_name gp)) c fd item ids w"
  then show ?thesis by (simp add: write_branch_deleted)
qed

lemma processPlugin_deleted:
  "deletedPlugins (snd (processPlugin e gp wps ids w)) = deletedPlugins w
   \<or> deletedPlugins (snd (processPlugin e gp wps ids w)) = deletedPlugins w @ [gp_name gp]"
  using processPlugin_try_deleted [of e gp wps ids "w\<lparr>trace := trace w @ [Invoke gp]\<rparr>"]
  by (cases "processPlugin_try e gp wps ids (w\<lparr>trace := trace w @ [Invoke gp]\<rparr>)")
     (auto simp: processPlugin_def log_error_def split: sum.splits)

lemma run_batches_deleted_names:
  assumes "set (deletedPlugins w) \<subseteq> gp_name ` set gps"
  shows "set (deletedPlugins (snd (run_batches
           (\<lambda>gp st. processPlugin e gp wps (fst st) (snd st)) gps i (ids, w)))) \<subseteq> gp_name ` set gps"
proof (rule run_batches_invariant [where P = "\<lambda>st. set (deletedPlugins (snd st)) \<subseteq> gp_name ` set gps"])
  show "set (deletedPlugins (snd (ids, w))) \<subseteq> gp_name ` set gps" using assms by simp
next
  fix gp and st :: "jsval set \<times> world"
  assume "gp \<in> set gps" and "set (deletedPlugins (snd st)) \<subseteq> gp_name ` set gps"
  then show "set (deletedPlugins (snd (processPlugin e gp wps (fst st) (snd st)))) \<subseteq> gp_name ` set gps"
    using processPlugin_deleted [of e gp wps "fst st" "snd st"] by auto
next
  fix ids' :: "jsval set" and w' :: world and ev
  assume "set (deletedPlugins (snd (ids', w'))) \<subseteq> gp_name ` set gps"
  then show "set (deletedPlugins (snd (ids', w'\<lparr>trace := trace w' @ [ev]\<rparr>))) \<subseteq> gp_name ` set gps"
    by simp
qed


text \<open>The second loop when no deletion throws.\<close>

lemma delete_orphans_Nil [simp]: "delete_orphans e gps [] w = w"
  by (simp add: delete_orphans_def)

lemma delete_orphans_Cons:
  "delete_orphans e gps (wp # wps) w =
     delete_orphans e gps wps (if orphan gps wp then processDeletePlugin e wp w else w)"
  by (simp add: delete_orphans_def orphan_def)

lemma processDeletePlugin_no_throw:
  assumes "\<And>tr i. fails e tr (DeleteWebflowItem i) = None"
    and "\<And>tr k. fails e tr (DeleteAlgoliaItem k) = None"
  shows "processDeletePlugin e wp w =
     w\<lparr>webflow := collection_delete (wp_id wp) (webflow w),
       algolia := index_delete (fd_slug (wp_fieldData wp)) (algolia w),
       deletedPlugins := deletedPlugins w @ [fd_name (wp_fieldData wp)],
       trace := trace w @ [Call (DeleteWebflowItem (wp_id wp)) None,
                           Call (DeleteAlgoliaItem (fd_slug (wp_fieldData wp))) None]\<rparr>"
  by (rule processDeletePlugin_returns) (simp_all add: assms)

lemma delete_orphans_no_throw:
  assumes wf: "\<And>tr i. fails e tr (DeleteWebflowItem i) = None"
    and al: "\<And>tr k. fails e tr (DeleteAlgoliaItem k) = None"
  shows "set (webflow (delete_orphans e gps wps w)) \<subseteq> set (webflow w)
       \<and> set (algolia (delete_orphans e gps wps w)) \<subseteq> set (algolia w)
       \<and> (\<forall>r \<in> set wps. orphan gps r \<longrightarrow>
            wp_id r \<notin> wp_id ` set (webflow (delete_orphans e gps wps w))
            \<and> fd_slug (wp_fieldData r) \<notin> al_objectID ` set (algolia (delete_orphans e gps wps w)))
       \<and> deletedPlugins (delete_orphans e gps wps w) =
           deletedPlugins w @ map (\<lambda>r. fd_name (wp_fieldData r)) (filter (orphan gps) wps)"
proof (induction wps arbitrary: w)
  case Nil
  show ?case by simp
next
  case (Cons wp wps)
  show ?case
  proof (cases "orphan gps wp")
    case False
    then show ?thesis using Cons.IH [of w] by (simp add: delete_orphans_Cons)
  next
    case True
    let ?w1 = "processDeletePlugin e wp w"
    have w1: "webflow ?w1 = collection_delete (wp_id wp) (webflow w)"
      "algolia ?w1 = index_delete (fd_slug (wp_fieldData wp)) (algolia w)"
      "deletedPlugins ?w1 = deletedPlugins w @ [fd_name (wp_fieldData wp)]"
      by (simp_all add: processDeletePlugin_no_throw [OF wf al])
    have sub: "set (webflow ?w1) \<subseteq> set (webflow w)" "set (algolia ?w1) \<subseteq> set (algolia w)"
      by (auto simp: w1 collection_delete_def index_delete_def)
    have gone: "wp_id wp \<notin> wp_id ` set (webflow ?w1)"
      "fd_slug (wp_fieldData wp) \<notin> al_objectID ` set (algolia ?w1)"
      by (simp_all add: w1 collection_delete_removes index_delete_removes)
    show ?thesis
      using Cons.IH [of ?w1] True sub gone w1(3)
      by (simp add: delete_orphans_Cons) blast
  qed
qed

lemma count_list_append: "count_list (xs @ ys) x = count_list xs x + count_list ys x"
  by (induction xs) simp_all

lemma count_list_map_filter:
  "count_list (map f xs) y = length (filter (\<lambda>x. f x = y) xs)"
  by (induction xs) simp_all


lemma filter_no_image: "z \<notin> f ` set xs \<Longrightarrow> filter (\<lambda>y. f y = z) xs = []"
  by (induction xs) auto

lemma distinct_map_filter_one:
  "distinct (map f xs) \<Longrightarrow> x \<in> set xs \<Longrightarrow> length (filter (\<lambda>y. f y = f x) xs) = 1"
proof (induction xs)
  case Nil
  then show ?case by simp
next
  case (Cons a xs)
  show ?case
  proof (cases "f a = f x")
    case True
    then have "f x \<notin> f ` set xs" using Cons.prems(1) by simp
    then have "filter (\<lambda>y. f y = f x) xs = []" by (rule filter_no_image)
    then show ?thesis using True by simp
  next
    case False
    then show ?thesis using Cons by auto
  qed
qed

lemma syncPlugins_returns:
  assumes "syncPlugins e gps w = (None, w')"
  shows "w' = delete_orphans e gps (webflow w)
           (snd (run_batches (\<lambda>gp st. processPlugin e gp (webflow w) (fst st) (snd st)) gps 0
                  (set (map wp_name (webflow w)),
                   w\<lparr>trace := trace w @ [Call ListAlgoliaItems None,
                                           Call ListWebflowCollectionItems None]\<rparr>)))"
  using assms
  by (auto simp: syncPlugins_def listAlgoliaItems_def listWebflowCollectionItems_def Let_def
        split: option.splits)


text \<open>
  C5 (as amended). When no deletion throws, a run of sync-plugins.js that starts with an
  empty \<^verbatim>\<open>deletedPlugins\<close> and gets past the two listings ends with every orphan
  removed: no item of the collection has the orphan's id, no object of the index has its
  slug, and the orphan's name stands in \<^verbatim>\<open>deletedPlugins\<close> once for every item of that
  name the collection had, so exactly once when the names of the items are different.
  This holds whatever else fails during the run.
\<close>

theorem C5_orphans_are_deleted:
  assumes wf: "\<And>tr i. fails e tr (DeleteWebflowItem i) = None"
    and al: "\<And>tr k. fails e tr (DeleteAlgoliaItem k) = None"
    and run: "syncPlugins e gps w = (None, w')"
    and fresh: "deletedPlugins w = []"
    and r: "r \<in> set (webflow w)" "orphan gps r"
  shows "wp_id r \<notin> wp_id ` set (webflow w')
       \<and> fd_slug (wp_fieldData r) \<notin> al_objectID ` set (algolia w')
       \<and> count_list (deletedPlugins w') (fd_name (wp_fieldData r)) =
           length (filter (\<lambda>x. fd_name (wp_fieldData x) = fd_name (wp_fieldData r)) (webflow w))
       \<and> (distinct (map (\<lambda>x. fd_name (wp_fieldData x)) (webflow w)) \<longrightarrow>
            count_list (deletedPlugins w') (fd_name (wp_fieldData r)) = 1)"
proof -
  let ?n = "fd_name (wp_fieldData r)"
  let ?w3 = "snd (run_batches (\<lambda>gp st. processPlugin e gp (webflow w) (fst st) (snd st)) gps 0
                  (set (map wp_name (webflow w)),
                   w\<lparr>trace := trace w @ [Call ListAlgoliaItems None,
                                           Call ListWebflowCollectionItems None]\<rparr>))"
  have w': "w' = delete_orphans e gps (webflow w) ?w3"
    by (rule syncPlugins_returns [OF run])
  note d = delete_orphans_no_throw [OF wf al, of gps "webflow w" ?w3]
  have gone: "wp_id r \<notin> wp_id ` set (webflow w')"
    "fd_slug (wp_fieldData r) \<notin> al_objectID ` set (algolia w')"
    using d r unfolding w' by blast+
  have names: "set (deletedPlugins ?w3) \<subseteq> gp_name ` set gps"
    by (rule run_batches_deleted_names) (simp add: fresh)
  have "?n \<notin> gp_name ` set gps"
    using r(2) by (simp add: orphan_def findPluginByName_manifest_None)
  then have zero: "count_list (deletedPlugins ?w3) ?n = 0"
    using names by (auto simp: count_list_0_iff)
  have same: "filter (\<lambda>x. orphan gps x \<and> fd_name (wp_fieldData x) = ?n) (webflow w)
              = filter (\<lambda>x. fd_name (wp_fieldData x) = ?n) (webflow w)"
    using r(2) by (auto simp: orphan_def intro!: filter_cong)
  have "deletedPlugins w' = deletedPlugins ?w3 @
          map (\<lambda>r. fd_name (wp_fieldData r)) (filter (orphan gps) (webflow w))"
    using d unfolding w' by blast
  then have cnt: "count_list (deletedPlugins w') ?n =
           length (filter (\<lambda>x. fd_name (wp_fieldData x) = ?n) (webflow w))"
    using zero by (simp add: count_list_append count_list_map_filter same)
  have one: "distinct (map (\<lambda>x. fd_name (wp_fieldData x)) (webflow w)) \<longrightarrow>
            count_list (deletedPlugins w') ?n = 1"
    using distinct_map_filter_one [of "\<lambda>x. fd_name (wp_fieldData x)" "webflow w" r] r(1)
    by (simp add: cnt)
  from gone cnt one show ?thesis by blast
qed


lemmas sync_defs = syncPlugins_def listAlgoliaItems_def listWebflowCollectionItems_def
  delete_orphans_def findPluginByName_manifest_def slice_def BATCH_SIZE_def DELAY_MS_def sleep_def
  collection_create_def collection_update_def collection_delete_def
  index_create_def index_update_def index_delete_def
  mk_fieldData_def mk_algoliaItem_def or_zero_def js_and_def strict_eq_def

lemma sample_run_with_orphan:
  "syncPlugins sample_env [sample_plugin] (initial_world [sample_item, sample_orphan] []) =
     (None,
      (initial_world [sample_item] [])
        \<lparr>updatedPlugins := [''serverless-foo''], deletedPlugins := [''serverless-gone''],
         next_id := 3,
         trace := [Call ListAlgoliaItems None, Call ListWebflowCollectionItems None,
                   Batch [sample_plugin], Invoke sample_plugin,
                   Call (UpdateWebflowItem 1 sample_fieldData) None,
                   Call (UpdateAlgoliaItem sample_algoliaItem) None,
                   Call (DeleteWebflowItem 2) None,
                   Call (DeleteAlgoliaItem ''serverless-gone'') None]\<rparr>)"
  by (simp add: run_batches.simps sync_defs run_defs sample_defs sample_algoliaItem_def sample_orphan_def)


text \<open>A run over the sample item and an orphan: the orphan is deleted and reported once.\<close>

theorem C5_orphans_are_deleted_witness:
  "wp_id sample_orphan \<notin> wp_id ` set (webflow (snd (syncPlugins sample_env [sample_plugin]
                                      (initial_world [sample_item, sample_orphan] []))))
   \<and> count_list (deletedPlugins (snd (syncPlugins sample_env [sample_plugin]
                                      (initial_world [sample_item, sample_orphan] []))))
        (fd_name (wp_fieldData sample_orphan)) = 1"
  using C5_orphans_are_deleted [of sample_env "[sample_plugin]"
          "initial_world [sample_item, sample_orphan] []" _ sample_orphan,
          OF _ _ sample_run_with_orphan]
  by (simp add: sample_run_with_orphan)
     (simp add: sample_defs sample_orphan_def orphan_def findPluginByName_manifest_def)

text \<open>
  The claim as first stated has every orphan deleted and reported. Here the manifest is
  empty, the sample item is an orphan, and its deletion throws \<^verbatim>\<open>Error('boom')\<close>:
  the run ends normally, the item is still in the collection, and
  \<^verbatim>\<open>deletedPlugins\<close> is empty.
\<close>

theorem C5_orphans_are_deleted_counterexample:
  "orphan [] sample_item
   \<and> syncPlugins (sample_env\<lparr>fails := throws_on_delete\<rparr>) [] (initial_world [sample_item] []) =
       (None,
        (initial_world [sample_item] [])
          \<lparr>console_error := [''Failed to process deletion of serverless-foo boom''],
           trace := [Call ListAlgoliaItems None, Call ListWebflowCollectionItems None,
                     Call (DeleteWebflowItem 1) (Some (Error ''boom''))]\<rparr>)"
  by (simp add: run_batches.simps sync_defs run_defs sample_defs orphan_def)


section \<open>C3: two runs in succession\<close>


end
